theory Spec2Isabelle
  imports Complex_Main
begin

section \<open>Python strings, JSON values and dictionaries\<close>

text \<open>
  The agent of \<^verbatim>\<open>backend/chatbot/react_agent.py\<close> works on Python strings, on the JSON
  objects the completion provider answers with and on dictionaries that keep their insertion
  order. Strings are \<^typ>\<open>string\<close> (ASCII, one \<^typ>\<open>char\<close> per character), a JSON value
  is a \<open>json\<close>, and a dictionary is an association list with distinct keys in insertion
  order.
\<close>

definition upper_letters :: string where
  "upper_letters = ''ABCDEFGHIJKLMNOPQRSTUVWXYZ''"

definition lower_letters :: string where
  "lower_letters = ''abcdefghijklmnopqrstuvwxyz''"

definition digits :: string where
  "digits = ''0123456789''"

definition lower_char :: "char \<Rightarrow> char" where
  "lower_char c = (case map_of (zip upper_letters lower_letters) c of Some d \<Rightarrow> d | None \<Rightarrow> c)"

definition upper_char :: "char \<Rightarrow> char" where
  "upper_char c = (case map_of (zip lower_letters upper_letters) c of Some d \<Rightarrow> d | None \<Rightarrow> c)"

text \<open>\<^verbatim>\<open>str.lower()\<close> and \<^verbatim>\<open>str.upper()\<close>.\<close>

definition lower :: "string \<Rightarrow> string" where
  "lower s = map lower_char s"

definition upper :: "string \<Rightarrow> string" where
  "upper s = map upper_char s"

definition is_space :: "char \<Rightarrow> bool" where
  "is_space c = (c \<in> set [CHR '' '', CHR 0x09, CHR 0x0A, CHR 0x0B, CHR 0x0C, CHR 0x0D,
                           CHR 0x1C, CHR 0x1D, CHR 0x1E, CHR 0x1F])"

definition is_digit :: "char \<Rightarrow> bool" where
  "is_digit c = (c \<in> set digits)"

definition is_alpha :: "char \<Rightarrow> bool" where
  "is_alpha c = (c \<in> set upper_letters \<or> c \<in> set lower_letters)"

text \<open>\<^verbatim>\<open>str.strip()\<close>: leading and trailing whitespace removed.\<close>

definition strip :: "string \<Rightarrow> string" where
  "strip s = rev (dropWhile is_space (rev (dropWhile is_space s)))"

text \<open>\<^verbatim>\<open>s.startswith(p)\<close>, \<^verbatim>\<open>s.endswith(p)\<close> and \<^verbatim>\<open>sub in s\<close>.\<close>

definition startswith :: "string \<Rightarrow> string \<Rightarrow> bool" where
  "startswith s p = (take (length p) s = p)"

definition endswith :: "string \<Rightarrow> string \<Rightarrow> bool" where
  "endswith s p = (length p \<le> length s \<and> drop (length s - length p) s = p)"

fun contains :: "string \<Rightarrow> string \<Rightarrow> bool" where
  "contains [] sub = (sub = [])"
| "contains (c # cs) sub = (take (length sub) (c # cs) = sub \<or> contains cs sub)"

text \<open>\<^verbatim>\<open>s.replace(old, new)\<close> for a one-character \<open>old\<close>.\<close>

definition replace_char :: "char \<Rightarrow> string \<Rightarrow> string \<Rightarrow> string" where
  "replace_char old new s = concat (map (\<lambda>c. if c = old then new else [c]) s)"

text \<open>\<^verbatim>\<open>s.split('\n')\<close> and \<^verbatim>\<open>'\n'.join(lines)\<close>.\<close>

fun split_lines :: "string \<Rightarrow> string list" where
  "split_lines [] = [[]]"
| "split_lines (c # cs) =
     (if c = CHR 0x0A then [] # split_lines cs
      else (case split_lines cs of l # ls \<Rightarrow> (c # l) # ls | [] \<Rightarrow> [[c]]))"

fun join_with :: "string \<Rightarrow> string list \<Rightarrow> string" where
  "join_with sep [] = []"
| "join_with sep [l] = l"
| "join_with sep (l # ls) = l @ sep @ join_with sep ls"

text \<open>\<^verbatim>\<open>len(s.split())\<close>: the number of maximal runs of non-whitespace characters.\<close>

fun word_count :: "bool \<Rightarrow> string \<Rightarrow> nat" where
  "word_count inw [] = 0"
| "word_count inw (c # cs) =
     (if is_space c then word_count False cs
      else (if inw then 0 else 1) + word_count True cs)"

text \<open>The decimal numeral \<^verbatim>\<open>str(n)\<close> of a natural number.\<close>

fun show_nat_fuel :: "nat \<Rightarrow> nat \<Rightarrow> string" where
  "show_nat_fuel 0 n = [digits ! (n mod 10)]"
| "show_nat_fuel (Suc k) n =
     (if n < 10 then [digits ! n] else show_nat_fuel k (n div 10) @ [digits ! (n mod 10)])"

definition show_nat :: "nat \<Rightarrow> string" where
  "show_nat n = show_nat_fuel n n"

text \<open>
  \<^verbatim>\<open>int(s)\<close> on a string: surrounding whitespace, an optional sign, then decimal digits
  that single underscores may separate. \<open>None\<close> is \<^verbatim>\<open>ValueError\<close>.
\<close>

fun digits_ok :: "bool \<Rightarrow> string \<Rightarrow> bool" where
  "digits_ok after_digit [] = after_digit"
| "digits_ok after_digit (c # cs) =
     (if is_digit c then digits_ok True cs
      else c = CHR ''_'' \<and> after_digit \<and> digits_ok False cs)"

definition digit_val :: "char \<Rightarrow> nat" where
  "digit_val c = (case map_of (zip digits [0, 1, 2, 3, 4, 5, 6, 7, 8, 9]) c of Some d \<Rightarrow> d | None \<Rightarrow> 0)"

definition nat_of_digits :: "string \<Rightarrow> nat" where
  "nat_of_digits s = foldl (\<lambda>acc c. 10 * acc + digit_val c) 0 s"

definition int_py :: "string \<Rightarrow> int option" where
  "int_py s =
     (let t = strip s;
          neg = startswith t ''-'' \<and> t \<noteq> [];
          body = (if t \<noteq> [] \<and> (hd t = CHR ''-'' \<or> hd t = CHR ''+'') then tl t else t)
      in if digits_ok False body
         then Some ((if neg then - 1 else 1) * int (nat_of_digits (filter is_digit body)))
         else None)"

datatype json =
    JNull
  | JBool bool
  | JNum real
  | JStr string
  | JArr "json list"
  | JObj "(string \<times> json) list"

text \<open>Python truthiness of a decoded JSON value (\<^verbatim>\<open>if value:\<close>).\<close>

fun truthy :: "json \<Rightarrow> bool" where
  "truthy JNull = False"
| "truthy (JBool b) = b"
| "truthy (JNum r) = (r \<noteq> 0)"
| "truthy (JStr s) = (s \<noteq> [])"
| "truthy (JArr xs) = (xs \<noteq> [])"
| "truthy (JObj kvs) = (kvs \<noteq> [])"

type_synonym pydict = "(string \<times> json) list"

text \<open>\<^verbatim>\<open>d.get(k)\<close>, \<^verbatim>\<open>k in d\<close>, \<^verbatim>\<open>d[k] = v\<close> and \<^verbatim>\<open>d.update(e)\<close>.\<close>

definition dict_get :: "(string \<times> 'v) list \<Rightarrow> string \<Rightarrow> 'v option" where
  "dict_get d k = map_of d k"

definition dict_has :: "(string \<times> 'v) list \<Rightarrow> string \<Rightarrow> bool" where
  "dict_has d k = (map_of d k \<noteq> None)"

fun dict_set :: "(string \<times> 'v) list \<Rightarrow> string \<Rightarrow> 'v \<Rightarrow> (string \<times> 'v) list" where
  "dict_set [] k v = [(k, v)]"
| "dict_set ((k', v') # d) k v = (if k' = k then (k, v) # d else (k', v') # dict_set d k v)"

definition dict_update :: "(string \<times> 'v) list \<Rightarrow> (string \<times> 'v) list \<Rightarrow> (string \<times> 'v) list" where
  "dict_update d e = foldl (\<lambda>acc (k, v). dict_set acc k v) d e"

text \<open>\<^verbatim>\<open>d.get(k)\<close> used as a condition: a missing key gives \<^verbatim>\<open>None\<close>, which is falsy.\<close>

definition get_truthy :: "pydict \<Rightarrow> string \<Rightarrow> bool" where
  "get_truthy d k = (case dict_get d k of None \<Rightarrow> False | Some v \<Rightarrow> truthy v)"

section \<open>The form catalog (\<^verbatim>\<open>form_schemas.py\<close>)\<close>

record field_schema =
  ftype :: "string option"
  min_length :: "nat option"
  max_length :: "nat option"
  min_value :: "int option"
  max_value :: "int option"
  options :: "string list option"
  pattern_rx :: "string option"
  optional :: bool

text \<open>The empty rule \<^verbatim>\<open>{}\<close> and a rule that only fixes the type.\<close>

definition no_rule :: field_schema where
  "no_rule = \<lparr>ftype = None, min_length = None, max_length = None, min_value = None,
              max_value = None, options = None, pattern_rx = None, optional = False\<rparr>"

definition rule :: "string \<Rightarrow> field_schema" where
  "rule t = no_rule\<lparr>ftype := Some t\<rparr>"

definition lengths :: "string \<Rightarrow> nat \<Rightarrow> nat \<Rightarrow> field_schema" where
  "lengths t lo hi = (rule t)\<lparr>min_length := Some lo, max_length := Some hi\<rparr>"

record form_info =
  title :: string
  description :: string
  endpoint :: string
  form_required :: "string list"
  optional_fields :: "string list"
  validation :: "(string \<times> field_schema) list"

definition FORM_SCHEMAS :: "(string \<times> form_info) list" where
  "FORM_SCHEMAS =
    [(''contact'',
      \<lparr>title = ''Contact Inquiry'',
       description = ''General contact form for inquiries'',
       endpoint = ''inquiriesApi.create'',
       form_required = [''full_name'', ''email'', ''subject'', ''message''],
       optional_fields = [''phone''],
       validation =
        [(''full_name'', lengths ''string'' 2 100),
         (''email'', rule ''email''),
         (''phone'', (rule ''phone'')\<lparr>optional := True\<rparr>),
         (''subject'', lengths ''string'' 5 200),
         (''message'', lengths ''text'' 10 1000)]\<rparr>),
     (''make_claim'',
      \<lparr>title = ''Accident Claim'',
       description = ''Submit vehicle accident claims'',
       endpoint = ''bookingsApi.submitClaim'',
       form_required = [''first_name'', ''last_name'', ''email'', ''phone'', ''full_address'', ''accident_date'', ''vehicle_registration'', ''insurance_company'', ''policy_number'', ''accident_details'', ''pickup_location'', ''dropoff_location''],
       optional_fields = [''additional_notes'', ''documents''],
       validation =
        [(''first_name'', lengths ''string'' 2 50),
         (''last_name'', lengths ''string'' 2 50),
         (''email'', rule ''email''),
         (''phone'', rule ''phone''),
         (''full_address'', lengths ''text'' 10 500),
         (''accident_date'', rule ''date''),
         (''vehicle_registration'', (rule ''string'')\<lparr>pattern_rx := Some ''^[A-Z0-9]{1,10}$''\<rparr>),
         (''insurance_company'', lengths ''string'' 2 100),
         (''policy_number'', lengths ''string'' 5 50),
         (''accident_details'', lengths ''text'' 20 1000),
         (''pickup_location'', rule ''location''),
         (''dropoff_location'', rule ''location''),
         (''additional_notes'', (rule ''text'')\<lparr>max_length := Some 500, optional := True\<rparr>),
         (''documents'', (rule ''file'')\<lparr>optional := True\<rparr>)]\<rparr>),
     (''testimonial'',
      \<lparr>title = ''Customer Testimonial'',
       description = ''Submit customer feedback and testimonials'',
       endpoint = ''testimonialsApi.create'',
       form_required = [''full_name'', ''feedback'', ''rating''],
       optional_fields = [''service_used''],
       validation =
        [(''full_name'', lengths ''string'' 2 100),
         (''service_used'', (rule ''select'')\<lparr>options := Some [''Car Hire'', ''Car Rental'', ''Claims Management'', ''Car Purchase/Sale''], optional := True\<rparr>),
         (''feedback'', lengths ''text'' 10 1000),
         (''rating'', (rule ''integer'')\<lparr>min_value := Some 1, max_value := Some 5\<rparr>)]\<rparr>),
     (''newsletter_subscribe'',
      \<lparr>title = ''Newsletter Subscription'',
       description = ''Subscribe to newsletter'',
       endpoint = ''newsletterApi.subscribe'',
       form_required = [''email''],
       optional_fields = [],
       validation =
        [(''email'', rule ''email'')]\<rparr>),
     (''newsletter_unsubscribe'',
      \<lparr>title = ''Newsletter Unsubscription'',
       description = ''Unsubscribe from newsletter'',
       endpoint = ''newsletterApi.unsubscribe'',
       form_required = [''email''],
       optional_fields = [],
       validation =
        [(''email'', rule ''email'')]\<rparr>),
     (''car_purchase'',
      \<lparr>title = ''Car Purchase Request'',
       description = ''Submit interest in purchasing a vehicle'',
       endpoint = ''carSalesApi.submitPurchaseRequest'',
       form_required = [''name'', ''email'', ''phone''],
       optional_fields = [''message'', ''offer_price'', ''financing_required'', ''trade_in_details''],
       validation =
        [(''name'', lengths ''string'' 2 100),
         (''email'', rule ''email''),
         (''phone'', rule ''phone''),
         (''message'', (rule ''text'')\<lparr>max_length := Some 500, optional := True\<rparr>),
         (''offer_price'', (rule ''number'')\<lparr>min_value := Some 0, optional := True\<rparr>),
         (''financing_required'', (rule ''boolean'')\<lparr>optional := True\<rparr>),
         (''trade_in_details'', (rule ''text'')\<lparr>max_length := Some 500, optional := True\<rparr>)]\<rparr>),
     (''car_sell'',
      \<lparr>title = ''Sell Vehicle Request'',
       description = ''Submit request to sell a vehicle'',
       endpoint = ''carSalesApi.submitSellRequest'',
       form_required = [''name'', ''vehicle_make'', ''vehicle_model''],
       optional_fields = [''email'', ''phone'', ''vehicle_year'', ''mileage'', ''message'', ''vehicle_image''],
       validation =
        [(''name'', lengths ''string'' 2 100),
         (''email'', (rule ''email'')\<lparr>optional := True\<rparr>),
         (''phone'', (rule ''phone'')\<lparr>optional := True\<rparr>),
         (''vehicle_make'', lengths ''string'' 2 50),
         (''vehicle_model'', lengths ''string'' 2 50),
         (''vehicle_year'', (rule ''integer'')\<lparr>min_value := Some 1900, max_value := Some 2030, optional := True\<rparr>),
         (''mileage'', (rule ''integer'')\<lparr>min_value := Some 0, optional := True\<rparr>),
         (''message'', (rule ''text'')\<lparr>max_length := Some 500, optional := True\<rparr>),
         (''vehicle_image'', (rule ''file'')\<lparr>optional := True\<rparr>)]\<rparr>)]"

definition FORM_QUESTIONS :: "(string \<times> (string \<times> string) list) list" where
  "FORM_QUESTIONS =
    [(''contact'',
      [(''full_name'',
        ''May I have your full name please?''),
       (''email'',
        ''What's the best email address to reach you at?''),
       (''phone'',
        ''Would you like to provide a phone number for faster assistance?''),
       (''subject'',
        ''What's the main topic or subject of your inquiry?''),
       (''message'',
        ''Please share any additional details about your inquiry. I'm here to help.'')]),
     (''make_claim'',
      [(''first_name'',
        ''To get started with your claim, may I have your first name?''),
       (''last_name'',
        ''And your last name please?''),
       (''email'',
        ''What's your email address so we can keep you updated on your claim?''),
       (''phone'',
        ''What's the best phone number to reach you at regarding your claim?''),
       (''full_address'',
        ''Could you please provide your full address for the claim documentation?''),
       (''accident_date'',
        ''When did the accident occur? (Please provide the date)''),
       (''vehicle_registration'',
        ''What's the registration number of the vehicle involved?''),
       (''insurance_company'',
        ''Which insurance company handles your policy?''),
       (''policy_number'',
        ''What's your policy number with them?''),
       (''accident_details'',
        ''Could you please describe what happened in the accident? Any details would be helpful.''),
       (''pickup_location'',
        ''Where would you like us to pick up the replacement vehicle?''),
       (''dropoff_location'',
        ''And where should we deliver it to?''),
       (''additional_notes'',
        ''Is there anything else you'd like to add about your claim?'')]),
     (''testimonial'',
      [(''full_name'',
        ''May I have your name for this testimonial?''),
       (''service_used'',
        ''Which of our services have you used? (Car Hire, Car Rental, Claims Management, or Car Purchase/Sale)''),
       (''feedback'',
        ''I'd love to hear about your experience. Please share your feedback with us.''),
       (''rating'',
        ''On a scale of 1-5 stars, how would you rate your experience with us?'')]),
     (''newsletter_subscribe'',
      [(''email'',
        ''What's your email address for the newsletter subscription?'')]),
     (''newsletter_unsubscribe'',
      [(''email'',
        ''What's the email address you'd like to unsubscribe from our newsletter?'')]),
     (''car_purchase'',
      [(''name'',
        ''May I have your full name for this purchase inquiry?''),
       (''email'',
        ''What's your email address so we can discuss the vehicle details?''),
       (''phone'',
        ''And your phone number for any immediate questions?''),
       (''message'',
        ''Is there anything specific you'd like to know about this vehicle?''),
       (''offer_price'',
        ''Do you have an offer price in mind for this vehicle?''),
       (''financing_required'',
        ''Are you interested in financing options for this purchase?''),
       (''trade_in_details'',
        ''Do you have a vehicle you'd like to trade in?'')]),
     (''car_sell'',
      [(''name'',
        ''May I have your name for this vehicle sale inquiry?''),
       (''email'',
        ''What's your email address so we can discuss the valuation?''),
       (''phone'',
        ''And your phone number for coordination?''),
       (''vehicle_make'',
        ''What's the make of the vehicle you'd like to sell?''),
       (''vehicle_model'',
        ''And the model?''),
       (''vehicle_year'',
        ''What year was it manufactured?''),
       (''mileage'',
        ''What's the current mileage on the vehicle?''),
       (''message'',
        ''Is there anything specific you'd like to tell us about the vehicle?'')])]"

text \<open>
  \<^verbatim>\<open>self.form_schemas.get(form, {}).get('required_fields', [])\<close> and
  \<^verbatim>\<open>form_info.get('validation', {}).get(field, {})\<close>.
\<close>

definition required_of :: "string \<Rightarrow> string list" where
  "required_of form = (case dict_get FORM_SCHEMAS form of None \<Rightarrow> [] | Some fi \<Rightarrow> form_required fi)"

definition rule_of :: "form_info \<Rightarrow> string \<Rightarrow> field_schema" where
  "rule_of fi field = (case dict_get (validation fi) field of None \<Rightarrow> no_rule | Some r \<Rightarrow> r)"

text \<open>
  The fields still to collect, in schema order:
  \<^verbatim>\<open>[f for f in required if f not in collected_data or not collected_data.get(f)]\<close>.
\<close>

definition missing_fields :: "string list \<Rightarrow> pydict \<Rightarrow> string list" where
  "missing_fields required collected = filter (\<lambda>f. \<not> get_truthy collected f) required"

section \<open>Field validation (\<^verbatim>\<open>_validate_field_value\<close>)\<close>

text \<open>
  \<^verbatim>\<open>re.match(r'^[a-zA-Z0-9._%+-]+@[a-zA-Z0-9.-]+\.[a-zA-Z]{2,}$', value)\<close>: the local part
  runs to the first \<open>@\<close>, the top-level domain is what follows the last dot, and \<open>$\<close>
  also matches before one trailing newline.
\<close>

definition local_char :: "char \<Rightarrow> bool" where
  "local_char c = (is_alpha c \<or> is_digit c \<or> c \<in> set ''._%+-'')"

definition domain_char :: "char \<Rightarrow> bool" where
  "domain_char c = (is_alpha c \<or> is_digit c \<or> c \<in> set ''.-'')"

definition email_core :: "string \<Rightarrow> bool" where
  "email_core s =
     (let loc = takeWhile (\<lambda>c. c \<noteq> CHR ''@'') s;
          rest = drop (Suc (length loc)) s;
          tld = rev (takeWhile (\<lambda>c. c \<noteq> CHR ''.'') (rev rest));
          dom = take (length rest - Suc (length tld)) rest
      in loc \<noteq> [] \<and> list_all local_char loc \<and> length loc < length s
         \<and> length tld < length rest \<and> dom \<noteq> [] \<and> list_all domain_char dom
         \<and> 2 \<le> length tld \<and> list_all is_alpha tld)"

definition email_match :: "string \<Rightarrow> bool" where
  "email_match s = (email_core s \<or> (s \<noteq> [] \<and> last s = CHR 0x0A \<and> email_core (butlast s)))"

definition type_of_rule :: "field_schema \<Rightarrow> string" where
  "type_of_rule fs = (case ftype fs of None \<Rightarrow> ''string'' | Some t \<Rightarrow> t)"

definition validate_field_value :: "string \<Rightarrow> string \<Rightarrow> field_schema \<Rightarrow> bool" where
  "validate_field_value field_name v fs =
     (if v = [] then False
      else if type_of_rule fs = ''email'' then email_match v
      else if type_of_rule fs = ''phone'' then 7 \<le> length (filter is_digit v)
      else if type_of_rule fs = ''string'' \<or> type_of_rule fs = ''text'' then
        (if (case min_length fs of Some m \<Rightarrow> length v < m | None \<Rightarrow> False) then False
         else if (case max_length fs of Some m \<Rightarrow> m < length v | None \<Rightarrow> False) then False
         else True)
      else if type_of_rule fs = ''integer'' then
        (case int_py v of
           None \<Rightarrow> False
         | Some i \<Rightarrow>
             (if (case min_value fs of Some m \<Rightarrow> i < m | None \<Rightarrow> False) then False
              else if (case max_value fs of Some m \<Rightarrow> m < i | None \<Rightarrow> False) then False
              else True))
      else if type_of_rule fs = ''select'' then
        (case options fs of Some os \<Rightarrow> v \<in> set os | None \<Rightarrow> True)
      else True)"

section \<open>The completion provider and the library functions\<close>

text \<open>
  What a call of \<^verbatim>\<open>self.client.chat.completions.create\<close> can do: raise (with the text of
  the exception), answer without choices, or answer with a content string (a \<^verbatim>\<open>None\<close>
  content is the empty string: both are falsy).
\<close>

datatype completion = Raises string | NoChoices | Content string

text \<open>
  Exceptions that leave a method: a \<^verbatim>\<open>KeyError\<close> of a dictionary lookup, or an exception
  of the environment with its text (\<open>Fault\<close>).
\<close>

datatype exn = KeyError string | Fault string

text \<open>
  Everything outside the repository is a field of \<open>world\<close>, and every theorem holds for
  every world: the provider's answers by request number, the library functions the agent
  calls (\<^verbatim>\<open>json.loads\<close>, the \<^verbatim>\<open>re\<close> searches and substitutions, \<^verbatim>\<open>float\<close>,
  \<^verbatim>\<open>str\<close> of a non-string), the keyword scoring of the rule-based responder, the outcome
  of re-reading the settings, and the exceptions that persistence, the graph runtime or the
  construction of a helper object may raise (the \<open>fault\<close> fields: \<open>Some msg\<close> at a
  site means that an exception with text \<open>msg\<close> is raised there). \<open>None\<close> results of
  the library functions stand for the exception the call raises (\<^verbatim>\<open>JSONDecodeError\<close>,
  \<^verbatim>\<open>ValueError\<close>) or for a search without a match.
\<close>

datatype reload_outcome = SettingsRaise | NoKey | ClientInitRaises | BadKeyFormat | KeyOk

record world =
  completions :: "nat \<Rightarrow> completion"
  json_loads :: "string \<Rightarrow> json option"
  fenced_block :: "string \<Rightarrow> string option"
  simple_object :: "string \<Rightarrow> string option"
  strip_tags :: "string \<Rightarrow> string"
  float_of_string :: "string \<Rightarrow> real option"
  py_repr :: "json \<Rightarrow> string"
  search_email :: "string \<Rightarrow> string option"
  search_phone :: "string \<Rightarrow> string option"
  strip_reasoning :: "string \<Rightarrow> string"
  service_fault :: "string option"
  rb_classify :: "string \<Rightarrow> string \<times> real"
  rb_fault :: "string \<Rightarrow> string option"
  reload :: reload_outcome
  row_fault :: "string \<Rightarrow> string option"
  node_fault :: "string \<Rightarrow> string option"

text \<open>\<^verbatim>\<open>str(value)\<close> of a decoded JSON value.\<close>

definition py_str :: "world \<Rightarrow> json \<Rightarrow> string" where
  "py_str W v = (case v of JStr s \<Rightarrow> s | _ \<Rightarrow> py_repr W v)"

text \<open>\<^verbatim>\<open>float(x)\<close>; \<open>None\<close> is \<^verbatim>\<open>TypeError\<close> or \<^verbatim>\<open>ValueError\<close>.\<close>

definition float_py :: "world \<Rightarrow> json \<Rightarrow> real option" where
  "float_py W v =
     (case v of
        JNum r \<Rightarrow> Some r
      | JBool b \<Rightarrow> Some (if b then 1 else 0)
      | JStr s \<Rightarrow> float_of_string W s
      | _ \<Rightarrow> None)"

section \<open>Provider state: failure counter and disable flag\<close>

text \<open>
  The fields of \<^verbatim>\<open>LangGraphChatbotAgent\<close> that change at run time. \<open>client\<close> is
  \<^verbatim>\<open>self.client is not None\<close>; \<open>requests\<close> counts the completion requests sent so far
  (it selects the provider's next answer and lets a theorem say that no request was sent).
\<close>

record agent =
  client :: bool
  api_disabled :: bool
  api_failure_count :: nat
  requests :: nat

definition is_client_available :: "agent \<Rightarrow> bool" where
  "is_client_available a = (if \<not> client a \<or> api_disabled a then False else True)"

definition is_auth_error :: "string \<Rightarrow> bool" where
  "is_auth_error error_msg =
     (contains error_msg ''401'' \<or> contains (lower error_msg) ''invalid_api_key''
      \<or> contains (lower error_msg) ''unauthorized'')"

definition mark_api_failure :: "agent \<Rightarrow> string \<Rightarrow> agent" where
  "mark_api_failure a error_msg =
     (if is_auth_error error_msg then
        (if \<not> api_disabled a then a\<lparr>client := False, api_disabled := True\<rparr> else a)
      else
        (let a1 = a\<lparr>api_failure_count := api_failure_count a + 1\<rparr>
         in if 3 \<le> api_failure_count a1 then a1\<lparr>api_disabled := True\<rparr> else a1))"

definition complete :: "world \<Rightarrow> agent \<Rightarrow> completion \<times> agent" where
  "complete W a = (completions W (requests a), a\<lparr>requests := Suc (requests a)\<rparr>)"

text \<open>
  \<^verbatim>\<open>reload_api_key\<close>: the counter and the flag are reset once the settings were read;
  a missing key, a failing client constructor or a key that does not start with \<^verbatim>\<open>gsk_\<close>
  sets the flag again and answers \<^verbatim>\<open>False\<close>.
\<close>

definition reload_api_key :: "world \<Rightarrow> agent \<Rightarrow> bool \<times> agent" where
  "reload_api_key W a =
     (case reload W of
        SettingsRaise \<Rightarrow> (False, a)
      | NoKey \<Rightarrow> (False, a\<lparr>api_failure_count := 0, client := False, api_disabled := True\<rparr>)
      | ClientInitRaises \<Rightarrow> (False, a\<lparr>api_failure_count := 0, client := False, api_disabled := True\<rparr>)
      | BadKeyFormat \<Rightarrow> (False, a\<lparr>api_failure_count := 0, client := True, api_disabled := True\<rparr>)
      | KeyOk \<Rightarrow> (True, a\<lparr>api_failure_count := 0, client := True, api_disabled := False\<rparr>))"

section \<open>Reading JSON out of a completion\<close>

definition thinking_indicators :: "string list" where
  "thinking_indicators =
     [''okay, let's see'', ''okay let's see'', ''let me think'', ''i need to'',
      ''looking at'', ''first,'', ''check the'', ''the user sent'', ''the message is'']"

text \<open>
  \<^verbatim>\<open>_clean_response_for_json\<close>: the tag substitutions are the library's
  (\<open>strip_tags\<close>), the line filter is the method's own.
\<close>

definition clean_response_for_json :: "world \<Rightarrow> string \<Rightarrow> string" where
  "clean_response_for_json W text =
     (if text = [] then text
      else strip (join_with [CHR 0x0A]
        (filter (\<lambda>line. \<not> (list_ex (contains (lower (strip line))) thinking_indicators
                             \<and> \<not> startswith (strip line) ''{''))
                (split_lines (strip_tags W text)))))"

text \<open>The balanced-brace scan of \<^verbatim>\<open>_extract_json_from_text\<close>.\<close>

fun brace_scan :: "world \<Rightarrow> string \<Rightarrow> nat \<Rightarrow> int \<Rightarrow> nat option \<Rightarrow> string \<Rightarrow> json option" where
  "brace_scan W text i brace_count start_idx [] = None"
| "brace_scan W text i brace_count start_idx (c # cs) =
     (if c = CHR ''{'' then
        brace_scan W text (Suc i) (brace_count + 1)
          (case start_idx of None \<Rightarrow> Some i | Some s \<Rightarrow> Some s) cs
      else if c = CHR ''}'' then
        (case start_idx of
           Some s \<Rightarrow>
             (if brace_count - 1 = 0 then
                (case json_loads W (take (Suc i - s) (drop s text)) of
                   Some v \<Rightarrow> Some v
                 | None \<Rightarrow> brace_scan W text (Suc i) 0 None cs)
              else brace_scan W text (Suc i) (brace_count - 1) start_idx cs)
         | None \<Rightarrow> brace_scan W text (Suc i) (brace_count - 1) start_idx cs)
      else brace_scan W text (Suc i) brace_count start_idx cs)"

text \<open>The last strategy: the lines from the first one that starts with a brace.\<close>

fun json_lines_of :: "bool \<Rightarrow> string list \<Rightarrow> string list" where
  "json_lines_of in_json [] = []"
| "json_lines_of in_json (line # rest) =
     (if startswith (strip line) ''{'' \<or> in_json then
        (if endswith (strip line) ''}''
            \<and> length (filter (\<lambda>c. c = CHR ''{'') (strip line))
                \<le> length (filter (\<lambda>c. c = CHR ''}'') (strip line))
         then [line]
         else line # json_lines_of True rest)
      else json_lines_of in_json rest)"

definition loads_opt :: "world \<Rightarrow> string option \<Rightarrow> json option" where
  "loads_opt W m = (case m of None \<Rightarrow> None | Some g \<Rightarrow> json_loads W g)"

definition extract_json_from_text :: "world \<Rightarrow> string \<Rightarrow> json option" where
  "extract_json_from_text W text =
     (if text = [] then None
      else case json_loads W text of
        Some v \<Rightarrow> Some v
      | None \<Rightarrow>
         (case loads_opt W (fenced_block W text) of
            Some v \<Rightarrow> Some v
          | None \<Rightarrow>
             (case brace_scan W text 0 0 None text of
                Some v \<Rightarrow> Some v
              | None \<Rightarrow>
                 (case loads_opt W (simple_object W text) of
                    Some v \<Rightarrow> Some v
                  | None \<Rightarrow>
                     (if json_lines_of False (split_lines text) \<noteq> []
                      then json_loads W (join_with [CHR 0x0A] (json_lines_of False (split_lines text)))
                      else None)))))"

text \<open>\<^verbatim>\<open>if result:\<close> on what the extraction returned.\<close>

definition result_truthy :: "json option \<Rightarrow> bool" where
  "result_truthy r = (case r of None \<Rightarrow> False | Some v \<Rightarrow> truthy v)"

section \<open>The conversation state of the workflow\<close>

record conv_state =
  session_id :: string
  user_info :: pydict
  ip_address :: "string option"
  messages :: "(string \<times> string) list"
  current_message :: string
  current_form :: "string option"
  current_step :: "string option"
  collected_data :: pydict
  required_fields :: "string list"
  completed_fields :: "string list"
  intent :: "string option"
  confidence :: real
  intent_reasoning :: json
  is_form_active :: bool
  form_completed :: bool
  requires_confirmation :: bool
  manual_reply_active :: bool
  response :: "string option"
  response_type :: string
  next_node :: "string option"

text \<open>\<^verbatim>\<open>if current_form:\<close> and \<^verbatim>\<open>if current_step:\<close>: \<^verbatim>\<open>None\<close> and the empty string are falsy.\<close>

definition nonempty :: "string option \<Rightarrow> string option" where
  "nonempty x = (case x of None \<Rightarrow> None | Some s \<Rightarrow> if s = [] then None else Some s)"

section \<open>Intent classifier (\<^verbatim>\<open>intent_classifier_node\<close>)\<close>

definition intent_keywords :: "string list" where
  "intent_keywords =
     [''wanna'', ''want'', ''need'', ''help'', ''hire'', ''buy'', ''sell'', ''claim'', ''contact'',
      ''subscribe'', ''unsubscribe'', ''testimonial'', ''review'']"

definition looks_like_new_intent :: "string \<Rightarrow> bool" where
  "looks_like_new_intent message =
     (list_ex (contains (strip (lower message))) intent_keywords \<and> 5 < length message)"

definition answer_general :: "conv_state \<Rightarrow> string \<Rightarrow> conv_state" where
  "answer_general st reason =
     st\<lparr>intent := Some ''general'', confidence := 0.3, intent_reasoning := JStr reason,
        next_node := Some ''general''\<rparr>"

text \<open>
  The block under \<^verbatim>\<open>if result:\<close>. \<open>None\<close> is an exception inside it: \<^verbatim>\<open>result.get\<close>
  on a value that is no dictionary, \<^verbatim>\<open>float\<close> of something that is no number, or the
  membership test on an unhashable intent.
\<close>

definition parsed_intent :: "world \<Rightarrow> json \<Rightarrow> (string \<times> real \<times> json) option" where
  "parsed_intent W result =
     (case result of
        JObj kvs \<Rightarrow>
          (case float_py W (case dict_get kvs ''confidence'' of None \<Rightarrow> JNum 0.5 | Some v \<Rightarrow> v) of
             None \<Rightarrow> None
           | Some c \<Rightarrow>
              (let reasoning = (case dict_get kvs ''reasoning'' of None \<Rightarrow> JStr [] | Some v \<Rightarrow> v)
               in case (case dict_get kvs ''intent'' of None \<Rightarrow> JStr ''general'' | Some v \<Rightarrow> v) of
                    JStr i \<Rightarrow>
                      (if \<not> dict_has FORM_SCHEMAS i \<and> i \<noteq> ''general''
                       then Some (''general'', 0.3, reasoning)
                       else Some (i, c, reasoning))
                  | JArr xs \<Rightarrow> None
                  | JObj xs \<Rightarrow> None
                  | other \<Rightarrow> Some (''general'', 0.3, reasoning)))
      | other \<Rightarrow> None)"

text \<open>The classifier from the availability check on: the provider is asked once.\<close>

definition classify_with_provider :: "world \<Rightarrow> agent \<Rightarrow> conv_state \<Rightarrow> agent \<times> conv_state" where
  "classify_with_provider W a st =
     (if \<not> is_client_available a then (a, answer_general st ''API unavailable - using fallback'')
      else case complete W a of
        (Raises e, a1) \<Rightarrow> (mark_api_failure a1 e, answer_general st (''API error: '' @ take 50 e))
      | (NoChoices, a1) \<Rightarrow> (a1, answer_general st ''Empty API response'')
      | (Content c, a1) \<Rightarrow>
          (if c = [] then (a1, answer_general st ''Empty API response'')
           else if strip c = [] then (a1, answer_general st ''Empty response text'')
           else case extract_json_from_text W (clean_response_for_json W (strip c)) of
             None \<Rightarrow> (a1, answer_general st ''Failed to parse JSON response'')
           | Some result \<Rightarrow>
               (if \<not> truthy result then (a1, answer_general st ''Failed to parse JSON response'')
                else case parsed_intent W result of
                  None \<Rightarrow>
                    (a1, st\<lparr>intent := Some ''general'', confidence := 0.3,
                            next_node := Some ''general''\<rparr>)
                | Some (i, c, reasoning) \<Rightarrow>
                    (a1, st\<lparr>intent := Some i, confidence := c, intent_reasoning := reasoning,
                            next_node := Some (if dict_has FORM_SCHEMAS i then ''form_flow''
                                               else ''general'')\<rparr>))))"

definition intent_classifier_node :: "world \<Rightarrow> agent \<times> conv_state \<Rightarrow> agent \<times> conv_state" where
  "intent_classifier_node W = (\<lambda>(a, st).
     case nonempty (current_form st) of
       None \<Rightarrow> classify_with_provider W a st
     | Some cf \<Rightarrow>
        (if looks_like_new_intent (current_message st) then
           (if missing_fields (required_of cf) (collected_data st) \<noteq> [] then
              (a, st\<lparr>intent := Some cf, confidence := 1.0,
                     intent_reasoning := JStr (''Already in active form ('' @ cf
                        @ ''), continuing to collect missing fields''),
                     next_node := Some ''form_flow''\<rparr>)
            else classify_with_provider W a st)
         else
           (a, st\<lparr>intent := Some cf, confidence := 1.0,
                  intent_reasoning := JStr ''Already in active form'',
                  next_node := Some ''form_flow''\<rparr>)))"

section \<open>Field extraction\<close>

text \<open>
  \<^verbatim>\<open>_extract_multiple_fields_from_message\<close>: one request for all missing fields; a value
  of the answer is kept only when \<^verbatim>\<open>_validate_field_value\<close> accepts it.
\<close>

definition candidate_ok :: "world \<Rightarrow> form_info \<Rightarrow> string \<Rightarrow> json \<Rightarrow> bool" where
  "candidate_ok W fi field_name v =
     (truthy v \<and> strip (py_str W v) \<noteq> [] \<and> upper (py_str W v) \<noteq> ''NOT_FOUND''
      \<and> lower (py_str W v) \<noteq> ''null''
      \<and> validate_field_value field_name (strip (py_str W v)) (rule_of fi field_name))"

definition validated_result :: "world \<Rightarrow> form_info \<Rightarrow> pydict \<Rightarrow> string list \<Rightarrow> (string \<times> string) list" where
  "validated_result W fi result field_names =
     foldl (\<lambda>acc field_name.
              case dict_get result field_name of
                None \<Rightarrow> acc
              | Some v \<Rightarrow>
                  if candidate_ok W fi field_name v
                  then dict_set acc field_name (strip (py_str W v)) else acc)
           [] field_names"

definition extract_multiple_fields_from_message ::
  "world \<Rightarrow> agent \<Rightarrow> string \<Rightarrow> string list \<Rightarrow> string \<Rightarrow> pydict \<Rightarrow> (string \<times> string) list \<times> agent" where
  "extract_multiple_fields_from_message W a message field_names form_type collected =
     (if message = [] \<or> field_names = [] \<or> form_type = [] then ([], a)
      else case dict_get FORM_SCHEMAS form_type of
        None \<Rightarrow> ([], a)
      | Some fi \<Rightarrow>
         (if \<not> is_client_available a then ([], a)
          else case complete W a of
            (Raises e, a1) \<Rightarrow> ([], mark_api_failure a1 e)
          | (NoChoices, a1) \<Rightarrow> ([], a1)
          | (Content c, a1) \<Rightarrow>
              (if c = [] then ([], a1)
               else case extract_json_from_text W (clean_response_for_json W (strip c)) of
                 Some (JObj result) \<Rightarrow>
                   (if result = [] then ([], a1)
                    else (validated_result W fi result field_names, a1))
               | other \<Rightarrow> ([], a1))))"

text \<open>
  \<^verbatim>\<open>_extract_field_value\<close>: one request for one field. The answer is checked only when
  the field's type is \<^verbatim>\<open>email\<close> or \<^verbatim>\<open>phone\<close>; without a client the method returns the
  string \<^verbatim>\<open>"NOT_FOUND"\<close>; when the request raises, it falls back on pattern matching and,
  for name fields, on the message itself.
\<close>

definition is_empty_rule :: "field_schema \<Rightarrow> bool" where
  "is_empty_rule fs = (fs = no_rule)"

definition unquote :: "char \<Rightarrow> string \<Rightarrow> string" where
  "unquote q s = (if startswith s [q] \<and> endswith s [q] then butlast (tl s) else s)"

definition isdigit_str :: "string \<Rightarrow> bool" where
  "isdigit_str s = (s \<noteq> [] \<and> list_all is_digit s)"

definition name_fields :: "string list" where
  "name_fields = [''name'', ''full_name'', ''first_name'', ''last_name'']"

definition extract_field_value ::
  "world \<Rightarrow> agent \<Rightarrow> string \<Rightarrow> string \<Rightarrow> string \<Rightarrow> string option \<times> agent" where
  "extract_field_value W a message field_name form_type =
     (if message = [] \<or> field_name = [] \<or> form_type = [] then (None, a)
      else
       (let field_schema = (case dict_get FORM_SCHEMAS form_type of
                              None \<Rightarrow> None
                            | Some fi \<Rightarrow> if is_empty_rule (rule_of fi field_name) then None
                                         else Some (rule_of fi field_name))
        in if \<not> is_client_available a then (Some ''NOT_FOUND'', a)
           else case complete W a of
             (Raises e, a1) \<Rightarrow>
               (let a2 = mark_api_failure a1 e;
                    by_pattern =
                      (case field_schema of
                         None \<Rightarrow> None
                       | Some fs \<Rightarrow>
                           if ftype fs = Some ''email'' then search_email W message
                           else if ftype fs = Some ''phone'' then
                             (case search_phone W message of
                                None \<Rightarrow> None
                              | Some m \<Rightarrow> if 7 \<le> length (filter is_digit (strip m))
                                          then Some (strip m) else None)
                           else None)
                in case by_pattern of
                     Some v \<Rightarrow> (Some v, a2)
                   | None \<Rightarrow>
                       if field_name \<in> set name_fields \<and> length (strip message) < 50
                       then (Some (strip message), a2) else (None, a2))
           | (NoChoices, a1) \<Rightarrow> (None, a1)
           | (Content c, a1) \<Rightarrow>
               (if c = [] then (None, a1)
                else
                 (let extracted = unquote (CHR 0x27) (unquote (CHR 0x22) (strip c))
                  in if upper extracted = ''NOT_FOUND'' \<or> extracted = [] then (None, a1)
                     else case field_schema of
                       None \<Rightarrow> (Some extracted, a1)
                     | Some fs \<Rightarrow>
                         if ftype fs = Some ''email'' then
                           (if \<not> email_match extracted then (None, a1) else (Some extracted, a1))
                         else if ftype fs = Some ''phone'' then
                           (let digits_only = filter (\<lambda>ch. ch \<notin> set '' -+()'') extracted
                            in if \<not> isdigit_str digits_only \<or> length digits_only < 7
                               then (None, a1) else (Some extracted, a1))
                         else (Some extracted, a1)))))"

section \<open>Form router, data extractor, question generator, validator\<close>

text \<open>
  Committing extracted values: \<^verbatim>\<open>collected_data[field_name] = field_value\<close> for every
  non-empty value of a field in \<open>wanted\<close>, and the field is appended to
  \<^verbatim>\<open>completed_fields\<close> when new there.
\<close>

definition commit_fields ::
  "string list \<Rightarrow> (string \<times> string) list \<Rightarrow> pydict \<times> string list \<Rightarrow> pydict \<times> string list" where
  "commit_fields wanted extracted start =
     foldl (\<lambda>(cd, done) (field_name, field_value).
              if field_value \<noteq> [] \<and> field_name \<in> set wanted
              then (dict_set cd field_name (JStr field_value),
                    if field_name \<in> set done then done else done @ [field_name])
              else (cd, done))
           start extracted"

text \<open>
  Pre-population when a form starts: the conversation's name goes to the first of
  \<^verbatim>\<open>name\<close>, \<^verbatim>\<open>full_name\<close>, \<^verbatim>\<open>first_name\<close> that the form requires.
\<close>

definition prefill_contact ::
  "pydict \<Rightarrow> string \<Rightarrow> string \<Rightarrow> string list \<times> pydict \<times> string list \<Rightarrow>
   string list \<times> pydict \<times> string list" where
  "prefill_contact ui key field = (\<lambda>(required, cd, done).
     if get_truthy ui key \<and> field \<in> set required
     then (remove1 field required,
           dict_set cd field (case dict_get ui key of Some v \<Rightarrow> v | None \<Rightarrow> JNull),
           done @ [field])
     else (required, cd, done))"

definition prefill_name ::
  "pydict \<Rightarrow> string list \<times> pydict \<times> string list \<Rightarrow> string list \<times> pydict \<times> string list" where
  "prefill_name ui = (\<lambda>(required, cd, done).
     if get_truthy ui ''name'' then
       (case filter (\<lambda>f. f \<in> set required) [''name'', ''full_name'', ''first_name''] of
          [] \<Rightarrow> (required, cd, done)
        | field # rest \<Rightarrow> prefill_contact ui ''name'' field (required, cd, done))
     else (required, cd, done))"

definition form_router_node :: "world \<Rightarrow> agent \<times> conv_state \<Rightarrow> (exn + conv_state) \<times> agent" where
  "form_router_node W = (\<lambda>(a, st).
     case (nonempty (current_form st), dict_get FORM_SCHEMAS (case intent st of None \<Rightarrow> [] | Some i \<Rightarrow> i)) of
       (None, Some fi) \<Rightarrow>
         (case prefill_contact (user_info st) ''phone'' ''phone''
                 (prefill_contact (user_info st) ''email'' ''email''
                    (prefill_name (user_info st) (form_required fi, [], []))) of
            (required, cd, done) \<Rightarrow>
              (Inr (st\<lparr>current_form := intent st, is_form_active := True,
                       required_fields := required, collected_data := cd,
                       completed_fields := done, next_node := Some ''start_form''\<rparr>), a))
     | (None, None) \<Rightarrow> (Inr (st\<lparr>next_node := Some ''general''\<rparr>), a)
     | (Some cf, x) \<Rightarrow>
        (if nonempty (current_step st) \<noteq> None then (Inr (st\<lparr>next_node := Some ''extract_data''\<rparr>), a)
         else case dict_get FORM_SCHEMAS cf of
           None \<Rightarrow> (Inl (KeyError cf), a)
         | Some fi \<Rightarrow>
            (let required = missing_fields (form_required fi) (collected_data st) in
             if required = [] then
               (Inr (st\<lparr>required_fields := required, next_node := Some ''validate''\<rparr>), a)
             else
               (case extract_multiple_fields_from_message W a (strip (current_message st))
                       required cf (collected_data st) of
                  (extracted, a1) \<Rightarrow>
                    (if extracted = [] then
                       (Inr (st\<lparr>required_fields := required, next_node := Some ''start_form''\<rparr>), a1)
                     else
                       (case commit_fields required extracted
                               (collected_data st, completed_fields st) of
                          (cd, done) \<Rightarrow>
                            (Inr (st\<lparr>collected_data := cd, completed_fields := done,
                                     required_fields := missing_fields (form_required fi) cd,
                                     next_node := Some (if missing_fields (form_required fi) cd = []
                                                        then ''validate'' else ''start_form'')\<rparr>),
                             a1)))))))"

definition data_extractor_node :: "world \<Rightarrow> agent \<times> conv_state \<Rightarrow> agent \<times> conv_state" where
  "data_extractor_node W = (\<lambda>(a, st).
     case nonempty (current_form st) of
       None \<Rightarrow> (a, st\<lparr>next_node := Some ''general''\<rparr>)
     | Some cf \<Rightarrow>
        (case dict_get FORM_SCHEMAS cf of
           None \<Rightarrow> (a, st\<lparr>next_node := Some ''general''\<rparr>)
         | Some fi \<Rightarrow>
            (let missing = missing_fields (form_required fi) (collected_data st);
                 step = (case nonempty (current_step st) of
                           Some s \<Rightarrow> if s \<in> set missing then Some s else None
                         | None \<Rightarrow> None);
                 single = (case step of
                             None \<Rightarrow> (None, a)
                           | Some s \<Rightarrow> extract_field_value W a (current_message st) s cf);
                 stored = (case (step, fst single) of
                             (Some s, Some v) \<Rightarrow>
                               if v \<noteq> [] then
                                 (dict_set (collected_data st) s (JStr v),
                                  if s \<in> set (completed_fields st) then completed_fields st
                                  else completed_fields st @ [s])
                               else (collected_data st, completed_fields st)
                           | other \<Rightarrow> (collected_data st, completed_fields st));
                 remaining_missing = filter (\<lambda>f. Some f \<noteq> current_step st) missing;
                 multi = (if remaining_missing = [] then ([], snd single)
                          else extract_multiple_fields_from_message W (snd single)
                                 (current_message st) remaining_missing cf (fst stored));
                 final = commit_fields remaining_missing (fst multi) stored
             in (snd multi,
                 st\<lparr>collected_data := fst final, completed_fields := snd final,
                    current_step := None,
                    required_fields := missing_fields (form_required fi) (fst final),
                    next_node := Some (if missing_fields (form_required fi) (fst final) = []
                                       then ''validate'' else ''next_question'')\<rparr>))))"

definition question_for :: "string \<Rightarrow> string \<Rightarrow> string" where
  "question_for form field =
     (case dict_get (case dict_get FORM_QUESTIONS form of None \<Rightarrow> [] | Some qs \<Rightarrow> qs) field of
        Some q \<Rightarrow> q
      | None \<Rightarrow> ''Could you please provide your '' @ replace_char (CHR ''_'') '' '' field @ ''?'')"

definition title_of :: "string \<Rightarrow> string" where
  "title_of form = (case dict_get FORM_SCHEMAS form of None \<Rightarrow> ''form'' | Some fi \<Rightarrow> title fi)"

definition progress_prompt :: "string \<Rightarrow> string \<Rightarrow> nat \<Rightarrow> nat \<Rightarrow> nat \<Rightarrow> string" where
  "progress_prompt form_title question collected_count remaining_count total_required =
     (if collected_count = 0 then
        ''I'd be happy to help you with '' @ form_title @ ''. '' @ question
      else if 0 < collected_count \<and> 1 < remaining_count then
        ''Great! '' @ question @ '' ('' @ show_nat collected_count @ '' of ''
          @ show_nat total_required @ '' completed)''
      else if remaining_count = 1 then
        ''Almost there! '' @ question @ '' (just 1 more field needed)''
      else question)"

definition question_generator_node :: "conv_state \<Rightarrow> conv_state" where
  "question_generator_node st =
     (case (nonempty (current_form st), required_fields st) of
        (Some cf, next_field # rest) \<Rightarrow>
          st\<lparr>current_step := Some next_field,
             response := Some (progress_prompt (title_of cf) (question_for cf next_field)
                                 (length (collected_data st)) (length (required_fields st))
                                 (length (required_of cf))),
             response_type := ''question'', next_node := Some ''end''\<rparr>
      | other \<Rightarrow>
          st\<lparr>response := Some ''Thank you! I have all the information I need.'',
             response_type := ''general'', next_node := Some ''end''\<rparr>)"

definition validator_node :: "conv_state \<Rightarrow> exn + conv_state" where
  "validator_node st =
     (case nonempty (current_form st) of
        None \<Rightarrow> Inr (st\<lparr>next_node := Some ''end''\<rparr>)
      | Some cf \<Rightarrow>
         (case dict_get FORM_SCHEMAS cf of
            None \<Rightarrow> Inl (KeyError cf)
          | Some fi \<Rightarrow>
             (if missing_fields (form_required fi) (collected_data st) \<noteq> [] then
                Inr (st\<lparr>required_fields := missing_fields (form_required fi) (collected_data st),
                        next_node := Some ''ask_question''\<rparr>)
              else Inr (st\<lparr>next_node := Some ''confirm''\<rparr>))))"

section \<open>Response generator\<close>

definition help_message :: string where
  "help_message = ''I'm here to help with car hire and related services. How can I assist you today?''"

definition car_hire_message :: string where
  "car_hire_message = ''I'm here to help with your car hire needs. How can I assist you?''"

text \<open>
  \<^verbatim>\<open>AgenticChatbotService._clean_response\<close> (\<^verbatim>\<open>services.py\<close>): the substitutions are the
  library's (\<open>strip_reasoning\<close>); an answer that ends up shorter than ten characters is
  replaced. The agent's \<^verbatim>\<open>_clean_response\<close> constructs the service first, which reads the
  database and may raise.
\<close>

definition service_clean_response :: "world \<Rightarrow> string \<Rightarrow> string" where
  "service_clean_response W raw =
     (if raw = [] then car_hire_message
      else if strip_reasoning W raw = [] \<or> length (strip_reasoning W raw) < 10
      then car_hire_message
      else strip_reasoning W raw)"

definition clean_response :: "world \<Rightarrow> string \<Rightarrow> exn + string" where
  "clean_response W raw =
     (if raw = [] then Inr car_hire_message
      else case service_fault W of
        Some msg \<Rightarrow> Inl (Fault msg)
      | None \<Rightarrow> Inr (service_clean_response W raw))"

definition goodbye_phrases :: "string list" where
  "goodbye_phrases =
     [''goodbye'', ''farewell'', ''see you later'', ''take care'', ''have a great day'', ''bye for now'']"

definition generate_general_response :: "world \<Rightarrow> agent \<Rightarrow> string \<times> agent" where
  "generate_general_response W a =
     (if \<not> is_client_available a then (help_message, a)
      else case complete W a of
        (Raises e, a1) \<Rightarrow> (help_message, mark_api_failure a1 e)
      | (NoChoices, a1) \<Rightarrow> (help_message, a1)
      | (Content c, a1) \<Rightarrow>
          (if c = [] then (help_message, a1)
           else case clean_response W (strip c) of
             Inl (Fault msg) \<Rightarrow> (help_message, mark_api_failure a1 msg)
           | Inl (KeyError k) \<Rightarrow> (help_message, mark_api_failure a1 k)
           | Inr cleaned \<Rightarrow>
               (if list_ex (contains (lower cleaned)) goodbye_phrases
                   \<and> \<not> contains (lower cleaned) ''always here''
                then (cleaned @ '' I'm always here whenever you need anything or have any questions!'', a1)
                else (cleaned, a1))))"

definition field_labels :: "(string \<times> string) list" where
  "field_labels =
     [(''name'', ''Name''), (''full_name'', ''Full Name''), (''first_name'', ''First Name''),
      (''last_name'', ''Last Name''), (''email'', ''Email''), (''phone'', ''Phone''),
      (''vehicle_make'', ''Vehicle Make''), (''vehicle_model'', ''Vehicle Model''),
      (''vehicle_year'', ''Vehicle Year''), (''mileage'', ''Mileage''), (''message'', ''Message''),
      (''subject'', ''Subject''), (''feedback'', ''Feedback''), (''rating'', ''Rating''),
      (''accident_date'', ''Accident Date''), (''vehicle_registration'', ''Vehicle Registration''),
      (''insurance_company'', ''Insurance Company''), (''policy_number'', ''Policy Number''),
      (''accident_details'', ''Accident Details''), (''pickup_location'', ''Pickup Location''),
      (''dropoff_location'', ''Dropoff Location''), (''full_address'', ''Address''),
      (''additional_notes'', ''Additional Notes''), (''offer_price'', ''Offer Price''),
      (''financing_required'', ''Financing Required''), (''trade_in_details'', ''Trade-in Details''),
      (''service_used'', ''Service Used'')]"

text \<open>\<^verbatim>\<open>str.title()\<close>: a letter after a letter is lowered, any other letter is raised.\<close>

fun title_py :: "bool \<Rightarrow> string \<Rightarrow> string" where
  "title_py after_letter [] = []"
| "title_py after_letter (c # cs) =
     (if is_alpha c then (if after_letter then lower_char c else upper_char c) # title_py True cs
      else c # title_py False cs)"

definition summary_line :: "world \<Rightarrow> string \<times> json \<Rightarrow> string" where
  "summary_line W = (\<lambda>(field, v).
     [CHR 0xE2, CHR 0x80, CHR 0xA2] @ '' **''
     @ (case dict_get field_labels field of
          Some l \<Rightarrow> l
        | None \<Rightarrow> title_py False (replace_char (CHR ''_'') '' '' field))
     @ ''**: ''
     @ (case v of JBool b \<Rightarrow> (if b then ''Yes'' else ''No'') | other \<Rightarrow> py_str W v)
     @ [CHR 0x0A])"

definition confirmation_summary :: "world \<Rightarrow> string \<Rightarrow> pydict \<Rightarrow> string" where
  "confirmation_summary W form collected =
     ''Perfect! Let me confirm the information you've provided for your '' @ title_of form
     @ '':'' @ [CHR 0x0A, CHR 0x0A]
     @ concat (map (summary_line W) collected)
     @ [CHR 0x0A]
     @ ''Does this look correct? Please reply 'yes' to submit or 'no' to make changes.''"

definition response_generator_node :: "world \<Rightarrow> agent \<times> conv_state \<Rightarrow> agent \<times> conv_state" where
  "response_generator_node W = (\<lambda>(a, st).
     case (if next_node st = Some ''confirm'' then nonempty (current_form st) else None) of
       Some cf \<Rightarrow>
         (a, st\<lparr>response := Some (confirmation_summary W cf (collected_data st)),
                response_type := ''confirmation'', requires_confirmation := True,
                next_node := Some ''end''\<rparr>)
     | None \<Rightarrow>
         (case dict_get FORM_SCHEMAS (case intent st of None \<Rightarrow> [] | Some i \<Rightarrow> i) of
            Some fi \<Rightarrow>
              (a, st\<lparr>response := Some (''I'd be happy to help you with '' @ title fi
                                        @ ''. Let me collect some information from you.''),
                     response_type := ''general'', next_node := Some ''end''\<rparr>)
          | None \<Rightarrow>
              (case generate_general_response W a of
                 (text, a1) \<Rightarrow>
                   (a1, st\<lparr>response := Some text, response_type := ''general'',
                           next_node := Some ''end''\<rparr>))))"

section \<open>The compiled graph (\<^verbatim>\<open>_build_graph\<close>)\<close>

text \<open>
  \<^verbatim>\<open>self.graph.invoke\<close> runs the nodes along the conditional edges. A routing function
  whose answer is no key of its edge map, an exception of a node, and an exception of the
  runtime while it enters a node (\<open>node_fault\<close>) all end the run with that exception; what
  the nodes did to the agent before stays done.
\<close>

definition run_question_generator :: "world \<Rightarrow> agent \<times> conv_state \<Rightarrow> (exn + conv_state) \<times> agent" where
  "run_question_generator W = (\<lambda>(a, st).
     case node_fault W ''question_generator'' of
       Some msg \<Rightarrow> (Inl (Fault msg), a)
     | None \<Rightarrow> (Inr (question_generator_node st), a))"

definition run_response_generator :: "world \<Rightarrow> agent \<times> conv_state \<Rightarrow> (exn + conv_state) \<times> agent" where
  "run_response_generator W = (\<lambda>(a, st).
     case node_fault W ''response_generator'' of
       Some msg \<Rightarrow> (Inl (Fault msg), a)
     | None \<Rightarrow> (case response_generator_node W (a, st) of (a1, st1) \<Rightarrow> (Inr st1, a1)))"

definition route_after_validation :: "conv_state \<Rightarrow> string" where
  "route_after_validation st =
     (if next_node st = Some ''confirm'' then ''confirm''
      else if next_node st = Some ''ask_question'' then ''ask_question''
      else ''end'')"

definition run_validator :: "world \<Rightarrow> agent \<times> conv_state \<Rightarrow> (exn + conv_state) \<times> agent" where
  "run_validator W = (\<lambda>(a, st).
     case node_fault W ''validator'' of
       Some msg \<Rightarrow> (Inl (Fault msg), a)
     | None \<Rightarrow>
        (case validator_node st of
           Inl e \<Rightarrow> (Inl e, a)
         | Inr st1 \<Rightarrow>
            (if route_after_validation st1 = ''confirm'' then run_response_generator W (a, st1)
             else if route_after_validation st1 = ''ask_question'' then run_question_generator W (a, st1)
             else (Inl (KeyError (route_after_validation st1)), a))))"

definition route_after_extraction :: "conv_state \<Rightarrow> string" where
  "route_after_extraction st =
     (if next_node st = Some ''validate'' then ''validate''
      else if next_node st = Some ''complete'' then ''complete''
      else ''next_question'')"

definition run_data_extractor :: "world \<Rightarrow> agent \<times> conv_state \<Rightarrow> (exn + conv_state) \<times> agent" where
  "run_data_extractor W = (\<lambda>(a, st).
     case node_fault W ''data_extractor'' of
       Some msg \<Rightarrow> (Inl (Fault msg), a)
     | None \<Rightarrow>
        (case data_extractor_node W (a, st) of
           (a1, st1) \<Rightarrow>
             (if route_after_extraction st1 = ''validate'' then run_validator W (a1, st1)
              else if route_after_extraction st1 = ''complete'' then run_response_generator W (a1, st1)
              else run_question_generator W (a1, st1))))"

definition route_after_form_router :: "conv_state \<Rightarrow> string" where
  "route_after_form_router st =
     (if next_node st = Some ''start_form'' then ''start_form''
      else if next_node st = Some ''extract_data'' then ''extract_data''
      else if next_node st = Some ''validate'' then ''validate''
      else ''general'')"

definition run_form_router :: "world \<Rightarrow> agent \<times> conv_state \<Rightarrow> (exn + conv_state) \<times> agent" where
  "run_form_router W = (\<lambda>(a, st).
     case node_fault W ''form_router'' of
       Some msg \<Rightarrow> (Inl (Fault msg), a)
     | None \<Rightarrow>
        (case form_router_node W (a, st) of
           (Inl e, a1) \<Rightarrow> (Inl e, a1)
         | (Inr st1, a1) \<Rightarrow>
             (if route_after_form_router st1 = ''start_form'' then run_question_generator W (a1, st1)
              else if route_after_form_router st1 = ''extract_data'' then run_data_extractor W (a1, st1)
              else if route_after_form_router st1 = ''validate'' then run_validator W (a1, st1)
              else run_response_generator W (a1, st1))))"

definition graph_invoke :: "world \<Rightarrow> agent \<times> conv_state \<Rightarrow> (exn + conv_state) \<times> agent" where
  "graph_invoke W = (\<lambda>(a, st).
     case node_fault W ''intent_classifier'' of
       Some msg \<Rightarrow> (Inl (Fault msg), a)
     | None \<Rightarrow>
        (case intent_classifier_node W (a, st) of
           (a1, st1) \<Rightarrow>
             (if next_node st1 = Some ''form_flow'' then run_form_router W (a1, st1)
              else if next_node st1 = Some ''general'' then run_response_generator W (a1, st1)
              else if next_node st1 = Some ''extract_data'' then run_data_extractor W (a1, st1)
              else (Inl (KeyError (case next_node st1 of None \<Rightarrow> ''None'' | Some n \<Rightarrow> n)), a1))))"

section \<open>Rule-based responder (\<^verbatim>\<open>rule_based_chatbot.py\<close>)\<close>

text \<open>
  The canned answers of \<^verbatim>\<open>_initialize_context_patterns\<close>, by intent category (the regular
  expressions of each category feed \<^verbatim>\<open>classify_intent\<close>, whose result is the world's
  \<open>rb_classify\<close>), and those of \<^verbatim>\<open>_initialize_responses\<close>.
\<close>

definition context_patterns :: "(string \<times> string list) list" where
  "context_patterns =
    [(''greeting'',
      [''Hello! Welcome to Prestige Car Hire Management. I'm here to help you with all your car hire needs. How can I assist you today?'',
       ''Hi there! Thanks for reaching out to Prestige Car Hire. What can I help you with today?'',
       ''Good day! I'm here to help you with car rentals, bookings, and any questions you might have. What would you like to know?'',
       ''Hello! Welcome to our car hire service. Whether you need to book a vehicle, get pricing information, or have any questions, I'm here to help!'']),
     (''company_info'',
      [''Prestige Car Hire Management is a premier car rental service offering luxury and standard vehicles for hire. We provide exceptional customer service, flexible rental options, and a wide range of vehicles to suit your needs.'',
       ''We are Prestige Car Hire Management, a trusted car rental company specializing in providing quality vehicles for short and long-term rentals. Our services include vehicle hire, insurance services, and comprehensive customer support.'',
       ''Prestige Car Hire Management offers professional car rental services with a focus on customer satisfaction. We provide various vehicle options, competitive pricing, and reliable support throughout your rental period.'']),
     (''pricing'',
      [''Our pricing varies depending on the vehicle type, rental duration, and season. We offer competitive rates for daily, weekly, and monthly rentals. For specific pricing quotes, please visit the 'Contact Us' page to get in touch with our team, or check the 'Our Fleet' page to see vehicles and inquire about rates.'',
       ''Pricing depends on several factors including the vehicle category, rental period, and any additional services. We offer flexible pricing options and special rates for longer rentals. Visit the 'Contact Us' page for a personalized quote, or browse vehicles on the 'Our Fleet' page.'',
       ''We provide transparent and competitive pricing for all our vehicles. Rates are calculated based on vehicle type, rental duration, and optional extras. For the most accurate quote, visit the 'Contact Us' page to speak with our team, or check out vehicles on the 'Our Fleet' page.'']),
     (''booking'',
      [''I'd be happy to help you with a booking! You can browse our available vehicles and make a booking through our website. Visit the 'Our Fleet' page to see all available vehicles, or go to the 'Contact Us' page to speak with our team directly. Would you like me to guide you to a specific page?'',
       ''Great! To make a booking, I recommend visiting our 'Our Fleet' page where you can see all available vehicles. You can also contact us directly through the 'Contact Us' page for personalized assistance with your booking. Which would you prefer?'',
       ''For bookings, please visit our 'Our Fleet' page to browse available vehicles, or use the 'Contact Us' page to get in touch with our team. They can help you find the perfect vehicle and arrange your rental. Need directions to these pages?'']),
     (''contact'',
      [''You can reach us through our 'Contact Us' page on the website, where you'll find our contact form, email (info@prestigecarhire.co.uk), and phone number. Visit the Contact Us page to get in touch with our team - we're here to help!'',
       ''For contact information and to reach our team, please visit the 'Contact Us' page on our website. You'll find our contact form, email address, and phone number there. Our team is available to assist you with bookings, inquiries, and support!'',
       ''To contact us, go to the 'Contact Us' page on our website. You can use the contact form, email us at info@prestigecarhire.co.uk, or call us directly. All contact details are available on that page!'']),
     (''vehicle_types'',
      [''We offer a wide range of vehicles including economy cars, sedans, SUVs, luxury vehicles, sports cars, and commercial vehicles. To see our full fleet, visit the 'Our Fleet' page on our website where you can browse all available vehicles with details, photos, and specifications.'',
       ''Our fleet includes compact cars, sedans, SUVs, luxury vehicles, sports cars, vans, and more. Check out the 'Our Fleet' page to see all available vehicles, view photos, and get detailed information about each vehicle. Is there a specific type you're interested in?'',
       ''We have an extensive fleet covering economy, mid-range, luxury, and premium vehicles. Visit the 'Our Fleet' page to browse our complete selection with detailed information, photos, and availability. What type of vehicle are you looking for?'']),
     (''insurance'',
      [''We offer comprehensive insurance coverage options for all rentals. For detailed information about our insurance services, visit the 'Insurance Services' page on our website. If you need to make a claim, you can use the 'Make a Claim' page. Would you like directions to either of these pages?'',
       ''All our rentals include basic insurance coverage, and we offer additional protection options. Visit the 'Insurance Services' page to learn more about our coverage options. For accident claims, go to the 'Make a Claim' page to start the process.'',
       ''We provide various insurance options to protect you during your rental period. Check out the 'Insurance Services' page for detailed information about coverage. If you've had an accident, visit the 'Make a Claim' page to file a claim.'']),
     (''requirements'',
      [''To rent a vehicle, you'll need: a valid driving license (held for at least 1-2 years depending on vehicle type), proof of identity, a credit or debit card for the security deposit, and you must meet our minimum age requirement (typically 21-25 years depending on vehicle category).'',
       ''Rental requirements include: a valid full driving license, ID proof, payment method for deposit, and meeting age requirements. For luxury or premium vehicles, additional requirements may apply. Would you like specific details for a particular vehicle type?'',
       ''You'll need a valid driving license, identification, and a payment method. Age requirements vary by vehicle category. For standard vehicles, drivers typically need to be 21+, while premium vehicles may require 25+. Can I help with specific requirements?'']),
     (''payment'',
      [''We accept major credit and debit cards. A security deposit is required at the time of rental, which is typically held as a pre-authorization on your card and released after the vehicle is returned in good condition. The deposit amount varies by vehicle type.'',
       ''Payment can be made via credit or debit card. We require a security deposit that's held on your card during the rental period. This deposit is fully refundable provided the vehicle is returned in the same condition. For specific deposit amounts, please inquire about your chosen vehicle.'',
       ''We accept credit and debit cards for payment. A refundable security deposit is required, which is held on your card and released after vehicle return. Deposit amounts depend on the vehicle category. Cash payments may be available for certain rentals - please inquire.'']),
     (''cancellation'',
      [''Our cancellation policy allows for booking changes and cancellations. Cancellation terms depend on how far in advance you cancel and the type of booking. Generally, cancellations made 24-48 hours before pickup are fully refundable. For specific terms, please check your booking confirmation or contact us.'',
       ''You can cancel or modify your booking subject to our cancellation policy. Free cancellations are typically available if made within a reasonable timeframe before your rental date. Late cancellations may incur charges. For details about your specific booking, please contact us.'',
       ''Cancellation and modification policies vary by booking type and timing. We aim to be flexible - cancellations made well in advance are usually free. For exact terms related to your booking, please reach out to our team who can provide specific information.'']),
     (''delivery'',
      [''We offer flexible pickup and return options. You can collect your vehicle from our office locations, or we can arrange delivery to airports, train stations, hotels, or other convenient locations (subject to availability and additional fees). Where would be most convenient for you?'',
       ''Pickup and delivery options are available. Standard collection is from our office, but we can arrange delivery to various locations including airports and hotels for an additional fee. Return can be to the same or different location. What location works best for you?'',
       ''We provide multiple pickup and return options. Standard service includes office collection, with delivery available to airports, hotels, and other locations. Delivery fees may apply depending on location. Where would you like to collect or have the vehicle delivered?'']),
     (''hours'',
      [''Our office hours are typically Monday to Friday 9 AM to 6 PM, and Saturday 9 AM to 4 PM. We're closed on Sundays and bank holidays. However, we offer 24/7 roadside assistance for emergencies. For specific hours or holiday schedules, please contact us.'',
       ''We're open Monday-Friday 9 AM-6 PM and Saturday 9 AM-4 PM. Sunday and bank holiday availability may be limited. Emergency roadside assistance is available 24/7. For exact hours or to arrange out-of-hours service, please get in touch.'',
       ''Standard office hours are weekdays 9 AM-6 PM and Saturdays 9 AM-4 PM. We're closed Sundays and most bank holidays. 24/7 emergency support is available for roadside assistance. Need service outside these hours? Contact us to discuss options.'']),
     (''emergency'',
      [''In case of an emergency, breakdown, or accident, please contact our 24/7 emergency helpline immediately. We'll provide roadside assistance, arrange recovery if needed, and help you get back on the road or provide a replacement vehicle. Your safety is our priority!'',
       ''For emergencies, breakdowns, or accidents, call our 24/7 emergency support line right away. We offer comprehensive roadside assistance including towing, tire changes, jump starts, and lockout service. If the vehicle can't be repaired quickly, we'll arrange a replacement.'',
       ''Emergency support is available 24/7! If you experience a breakdown, accident, or any urgent issue, contact our emergency helpline immediately. We provide roadside assistance, recovery services, and can arrange replacement vehicles when necessary. Don't hesitate to call!'']),
     (''testimonials'',
      [''We're proud of our excellent customer reviews and testimonials! Visit the 'Testimonials' page on our website to read what our customers say about our service quality, vehicle condition, and customer support. We'd love to add your positive experience too!'',
       ''Customer satisfaction is important to us! Check out the 'Testimonials' page to see reviews from our customers who appreciate our reliable service, well-maintained vehicles, and helpful staff. You can also share your own experience there!'',
       ''We value our customers' feedback! Visit the 'Testimonials' page to read reviews from customers who appreciate our professional service, quality vehicles, and responsive support. You can also leave your own testimonial there.'']),
     (''goodbye'',
      [''You're very welcome! I'm always here to help whenever you need assistance with car hire, bookings, or any questions. Feel free to reach out anytime. Have a wonderful day!'',
       ''Thank you for contacting Prestige Car Hire! If you need anything else or have more questions, I'm here to help. We look forward to serving you. Take care!'',
       ''It was my pleasure to assist you! Remember, I'm always available if you need help with bookings, information, or support. Don't hesitate to reach out anytime. Have a great day!'']),
     (''general_help'',
      [''I can help guide you to the right pages on our website! Here's what's available: 'Our Fleet' for browsing vehicles, 'Contact Us' for inquiries, 'Insurance Services' for coverage info, 'Make a Claim' for accident claims, 'Car Sales' for purchasing vehicles, 'Testimonials' for reviews, and 'Our People' to learn about our team. What would you like to explore?'',
       ''I'm here to help you navigate our website! You can visit: 'Our Fleet' to see available vehicles, 'Contact Us' to reach our team, 'Insurance Services' for insurance details, 'Make a Claim' for filing claims, 'Car Sales' to buy a vehicle, 'Testimonials' for customer reviews, or 'Our People' to meet our team. Which page interests you?'',
       ''I can guide you to the information you need! Our website has pages for: vehicle fleet browsing, contact information, insurance services, making claims, car sales, customer testimonials, and learning about our team. What would you like help finding?'']),
     (''faq_general'',
      [''Rental duration is flexible - we offer daily, weekly, and monthly rentals. Minimum rental periods vary by vehicle type (typically 1-3 days). You can extend your rental if the vehicle is available, or return early (subject to our terms). What duration are you considering?'',
       ''We offer flexible rental periods from daily to monthly rentals. Minimum rental terms depend on the vehicle category. Extensions are possible if the vehicle is available. Early returns are allowed but may affect pricing. How long do you need the vehicle?'',
       ''Rental periods are flexible - daily, weekly, or monthly options available. Minimum rental terms apply (usually 1-3 days). Extensions can be arranged if available. Early returns are possible but pricing adjustments may apply. What's your rental duration?'']),
     (''vehicle_features'',
      [''Our vehicles come with various features depending on the category. Standard features often include air conditioning, Bluetooth connectivity, GPS navigation (in many vehicles), and modern safety features. Visit the 'Our Fleet' page to see detailed specifications for each vehicle.'',
       ''Vehicle features depend on the category and model. Many include AC, Bluetooth, GPS, USB ports, and safety systems. We have both automatic and manual transmission options, and various fuel types. Check the 'Our Fleet' page for specific vehicle details.'',
       ''Features vary by vehicle type and model. Common features include air conditioning, infotainment systems, Bluetooth, GPS (in many vehicles), and safety equipment. Visit the 'Our Fleet' page to see detailed information about each vehicle's features.'']),
     (''car_sales'',
      [''Great! We offer vehicles for purchase through our car sales service. Visit the 'Car Sales' page on our website to browse vehicles available for purchase, view pricing, and submit a purchase inquiry. You can also contact us through the 'Contact Us' page for more information.'',
       ''To purchase a vehicle, visit the 'Car Sales' page where you can see all vehicles available for sale, get pricing information, and submit a purchase request. Our team will get back to you with details. Need directions to the Car Sales page?'',
       ''For car purchases, go to the 'Car Sales' page on our website. There you can browse available vehicles, view specifications, check pricing, and submit a purchase inquiry. You can also contact us directly through the 'Contact Us' page for assistance.'']),
     (''car_sell'',
      [''We'd be happy to help you sell your vehicle! Visit the 'Car Sales' page on our website where you can submit a sell request with details about your vehicle. Our team will provide a valuation and discuss options with you. You can also contact us through the 'Contact Us' page.'',
       ''To sell your vehicle, go to the 'Car Sales' page and submit a sell request with information about your car. We'll provide a valuation and discuss the best options for you. Need help finding the Car Sales page?'',
       ''For selling your vehicle, visit the 'Car Sales' page where you can submit details about your car for a valuation. Our team will review your information and get back to you. You can also reach out through the 'Contact Us' page for immediate assistance.'']),
     (''make_claim'',
      [''If you've had an accident and need to make a claim, visit the 'Make a Claim' page on our website. There you can submit your claim details and request a replacement vehicle. Our team will process your claim and arrange a suitable vehicle for you.'',
       ''To make an accident claim, go to the 'Make a Claim' page where you can fill out the claim form with details about your accident. We'll help you get a replacement vehicle quickly. Need directions to the Make a Claim page?'',
       ''For accident claims, visit the 'Make a Claim' page on our website. Submit your claim information there, and we'll arrange a replacement vehicle for you. You can also contact us through the 'Contact Us' page if you need immediate assistance.'']),
     (''services'',
      [''We offer several services including car hire, accident replacement vehicles, insurance claim management, personal assistance, introducer support, and insurance services. Visit the 'What We Do' page on our website to learn more about all our services, or check out 'Personal Assistance', 'Introducer Support', and 'Insurance Services' pages for specific details.'',
       ''Our services include car hire, accident replacement vehicles, insurance services, and comprehensive customer support. Check out the 'What We Do' page for an overview, or visit 'Personal Assistance', 'Introducer Support', and 'Insurance Services' pages for detailed information about each service.'',
       ''We provide car hire, accident replacement vehicles, insurance services, and customer support. The 'What We Do' page has an overview of all services. For specific services, visit 'Personal Assistance', 'Introducer Support', or 'Insurance Services' pages.''])]"

definition default_responses :: "string list" where
  "default_responses =
     [''I'm here to help with car hire and related services. Could you provide more details about what you're looking for?'',
      ''I'd be happy to assist you! Could you tell me more about what you need help with?'',
      ''Let me help you with that. Could you give me a bit more information so I can provide the best assistance?'']"

definition unclear_responses :: "string list" where
  "unclear_responses =
     [''I want to make sure I understand correctly. Could you rephrase your question or provide more details?'',
      ''I'm not entirely sure I understand. Could you clarify what you're looking for?'',
      ''To help you better, could you provide a bit more context or rephrase your question?'']"

definition get_response_for_intent :: "string \<Rightarrow> string \<Rightarrow> string" where
  "get_response_for_intent intent0 message =
     (let category = (if intent0 = [] then ''general_help'' else intent0) in
      case (case dict_get context_patterns category of None \<Rightarrow> [] | Some rs \<Rightarrow> rs) of
        r # rs \<Rightarrow> r
      | [] \<Rightarrow>
         (if category = ''unclear'' \<and> word_count False message \<le> 2 then
            ''I'm here to help! Could you tell me more about what you need? For example, are you looking to book a vehicle, get pricing information, or have questions about our services?''
          else if category = ''unclear'' \<and> unclear_responses \<noteq> [] then hd unclear_responses
          else if default_responses \<noteq> [] then hd default_responses
          else help_message))"

definition lead_intents :: "string list" where
  "lead_intents = [''booking'', ''pricing'', ''contact'', ''vehicle_types'', ''delivery'',
                   ''car_sales'', ''car_sell'', ''make_claim'']"

definition generate_response :: "world \<Rightarrow> string \<Rightarrow> pydict" where
  "generate_response W message =
     (if message = [] \<or> strip message = [] then
        [(''message'', JStr ''I'm here to help! Please let me know what you need assistance with.''),
         (''intent'', JStr ''unclear''), (''confidence'', JNum 0), (''collected_data'', JObj []),
         (''is_lead'', JBool False), (''response_time_ms'', JNum 50)]
      else case rb_classify W (strip message) of
        (category, conf) \<Rightarrow>
          [(''message'', JStr (get_response_for_intent category (strip message))),
           (''intent'', JStr category), (''confidence'', JNum conf), (''collected_data'', JObj []),
           (''is_lead'', JBool (category \<in> set lead_intents)), (''response_time_ms'', JNum 50)])"

section \<open>The resilience wrapper (\<^verbatim>\<open>process_message\<close>)\<close>

text \<open>
  A row of the \<^verbatim>\<open>Conversation\<close> table (\<^verbatim>\<open>models.py\<close>). Null and blank text columns are
  the empty string, as \<^verbatim>\<open>conversation.user_name or ''\<close> reads them.
\<close>

record conversation =
  c_session_id :: string
  c_user_email :: string
  c_user_name :: string
  c_user_phone :: string
  c_ip_address :: "string option"
  c_is_lead :: bool
  c_status :: string
  c_manual_reply_active :: bool
  c_collected_data :: pydict
  c_intent_classification :: string
  c_confidence_score :: json

definition opt_str :: "string option \<Rightarrow> json" where
  "opt_str x = (case x of None \<Rightarrow> JNull | Some s \<Rightarrow> JStr s)"

definition ultimate_fallback_response :: "pydict \<Rightarrow> pydict" where
  "ultimate_fallback_response ui =
     [(''message'', JStr help_message),
      (''response_type'', JStr ''general''),
      (''intent_classification'', JStr ''general''),
      (''confidence_score'', JNum 0.3),
      (''collected_data'', JObj []),
      (''current_form'', JNull),
      (''current_step'', JNull),
      (''is_form_active'', JBool False),
      (''form_completed'', JBool False),
      (''requires_confirmation'', JBool False),
      (''user_info'', JObj (if ui \<noteq> [] then ui else [])),
      (''response_time_ms'', JNum 0),
      (''fallback_used'', JBool True)]"

text \<open>\<^verbatim>\<open>d.get(k, default)\<close>.\<close>

definition get_or :: "pydict \<Rightarrow> string \<Rightarrow> json \<Rightarrow> json" where
  "get_or d k dflt = (case dict_get d k of None \<Rightarrow> dflt | Some v \<Rightarrow> v)"

text \<open>
  \<^verbatim>\<open>if found.get(key) and not user_info.get(key): user_info[key] = found[key]\<close>.
\<close>

definition learn :: "pydict \<Rightarrow> string \<Rightarrow> pydict \<Rightarrow> pydict" where
  "learn found key ui =
     (if get_truthy found key \<and> \<not> get_truthy ui key
      then dict_set ui key (get_or found key JNull) else ui)"

text \<open>
  \<^verbatim>\<open>_fallback_to_rule_based\<close>. The responder is obtained and asked inside handlers that
  answer with the ultimate fallback; the merge of its (always empty) collected data into
  the conversation's is guarded by a handler that resets the data.
\<close>

definition fallback_to_rule_based :: "world \<Rightarrow> string \<Rightarrow> conversation \<Rightarrow> pydict \<Rightarrow> pydict" where
  "fallback_to_rule_based W message conv ui =
     (case rb_fault W ''get_rule_based_chatbot'' of
        Some msg \<Rightarrow> ultimate_fallback_response ui
      | None \<Rightarrow>
         (case rb_fault W ''generate_response'' of
            Some msg \<Rightarrow> ultimate_fallback_response ui
          | None \<Rightarrow>
             (let result = generate_response W message;
                  found = get_or result ''collected_data'' (JObj []);
                  collected =
                    (case row_fault W ''collected_data'' of
                       Some msg \<Rightarrow> []
                     | None \<Rightarrow>
                        (if get_truthy result ''collected_data'' then
                           (case found of
                              JObj e \<Rightarrow> dict_update (c_collected_data conv) e
                            | other \<Rightarrow> [])
                         else c_collected_data conv));
                  ui1 = (case found of
                           JObj e \<Rightarrow> learn e ''phone'' (learn e ''email'' (learn e ''name'' ui))
                         | other \<Rightarrow> ui)
              in [(''message'', get_or result ''message'' (JStr help_message)),
                  (''response_type'', JStr ''general''),
                  (''intent_classification'', get_or result ''intent'' (JStr ''general'')),
                  (''confidence_score'', get_or result ''confidence'' (JNum 0.5)),
                  (''collected_data'', JObj collected),
                  (''current_form'', JNull),
                  (''current_step'', JNull),
                  (''is_form_active'', JBool False),
                  (''form_completed'', JBool False),
                  (''requires_confirmation'', JBool False),
                  (''user_info'', JObj ui1),
                  (''response_time_ms'', get_or result ''response_time_ms'' (JNum 50)),
                  (''fallback_used'', JBool True)])))"

text \<open>
  \<^verbatim>\<open>_extract_contact_info\<close>: pattern matches first, then one request whose answer
  overrides them. An answer that is JSON but no object raises \<^verbatim>\<open>AttributeError\<close> inside
  the handler that counts a provider failure (the text of that exception names no
  authentication error).
\<close>

definition regex_contact :: "world \<Rightarrow> string \<Rightarrow> pydict" where
  "regex_contact W message =
     (let e1 = (case search_email W message of None \<Rightarrow> [] | Some m \<Rightarrow> [(''email'', JStr m)])
      in case search_phone W message of
           None \<Rightarrow> e1
         | Some m \<Rightarrow> if 7 \<le> length (filter is_digit (strip m))
                     then dict_set e1 ''phone'' (JStr (strip m)) else e1)"

definition take_over :: "pydict \<Rightarrow> string \<Rightarrow> pydict \<Rightarrow> pydict" where
  "take_over result key extracted =
     (if get_truthy result key then dict_set extracted key (get_or result key JNull) else extracted)"

definition extract_contact_info :: "world \<Rightarrow> agent \<Rightarrow> string \<Rightarrow> pydict \<times> agent" where
  "extract_contact_info W a message =
     (if message = [] then ([], a)
      else if \<not> is_client_available a then (regex_contact W message, a)
      else case complete W a of
        (Raises e, a1) \<Rightarrow> (regex_contact W message, mark_api_failure a1 e)
      | (NoChoices, a1) \<Rightarrow> (regex_contact W message, a1)
      | (Content c, a1) \<Rightarrow>
          (if c = [] then (regex_contact W message, a1)
           else case extract_json_from_text W (clean_response_for_json W (strip c)) of
             None \<Rightarrow> (regex_contact W message, a1)
           | Some result \<Rightarrow>
               (if \<not> truthy result then (regex_contact W message, a1)
                else case result of
                  JObj kvs \<Rightarrow>
                    (take_over kvs ''phone'' (take_over kvs ''email''
                       (take_over kvs ''name'' (regex_contact W message))), a1)
                | other \<Rightarrow>
                    (regex_contact W message,
                     mark_api_failure a1 ''object has no attribute get''))))"

definition initial_user_info :: "world \<Rightarrow> conversation \<Rightarrow> pydict" where
  "initial_user_info W conv =
     (case row_fault W ''user_fields'' of
        Some msg \<Rightarrow> []
      | None \<Rightarrow> [(''name'', JStr (c_user_name conv)), (''email'', JStr (c_user_email conv)),
                 (''phone'', JStr (c_user_phone conv))])"

definition form_state_of :: "world \<Rightarrow> conversation \<Rightarrow> string option \<times> pydict \<times> string list" where
  "form_state_of W conv =
     (case row_fault W ''form_state'' of
        Some msg \<Rightarrow> (None, [], [])
      | None \<Rightarrow>
         (if dict_has FORM_SCHEMAS (c_intent_classification conv)
          then (Some (c_intent_classification conv), c_collected_data conv,
                missing_fields (required_of (c_intent_classification conv)) (c_collected_data conv))
          else (None, c_collected_data conv, [])))"

definition contact_step :: "world \<Rightarrow> agent \<Rightarrow> string \<Rightarrow> pydict \<Rightarrow> pydict \<times> agent" where
  "contact_step W a message ui =
     (if \<not> get_truthy ui ''name'' \<or> \<not> get_truthy ui ''phone'' \<or> \<not> get_truthy ui ''email'' then
        (case extract_contact_info W a message of
           (found, a1) \<Rightarrow> (learn found ''phone'' (learn found ''email'' (learn found ''name'' ui)), a1))
      else (ui, a))"

definition initial_state ::
  "string \<Rightarrow> string \<Rightarrow> conversation \<Rightarrow> (string \<times> string) list \<Rightarrow> pydict \<Rightarrow>
   string option \<times> pydict \<times> string list \<Rightarrow> conv_state" where
  "initial_state sid message conv history ui = (\<lambda>(cf, cd, required).
     \<lparr>session_id = sid, user_info = ui, ip_address = c_ip_address conv, messages = history,
      current_message = message, current_form = cf, current_step = None, collected_data = cd,
      required_fields = required, completed_fields = map fst cd, intent = None,
      confidence = 0, intent_reasoning = JNull, is_form_active = (nonempty cf \<noteq> None),
      form_completed = False, requires_confirmation = False,
      manual_reply_active = c_manual_reply_active conv, response = None,
      response_type = ''general'', next_node = None\<rparr>)"

definition pipeline_response :: "string \<Rightarrow> conv_state \<Rightarrow> pydict" where
  "pipeline_response cleaned_message final =
     [(''message'', JStr cleaned_message),
      (''response_type'', JStr (response_type final)),
      (''intent_classification'', opt_str (intent final)),
      (''confidence_score'', JNum (confidence final)),
      (''collected_data'', JObj (collected_data final)),
      (''current_form'', opt_str (current_form final)),
      (''current_step'', opt_str (current_step final)),
      (''is_form_active'', JBool (is_form_active final)),
      (''form_completed'', JBool (form_completed final)),
      (''requires_confirmation'', JBool (requires_confirmation final)),
      (''user_info'', JObj (user_info final)),
      (''response_time_ms'', JNum 1000)]"

text \<open>
  The body of the outer \<^verbatim>\<open>try\<close> from the preparation of the initial state on.
  \<open>history\<close> is what \<^verbatim>\<open>conversation.messages.all()\<close> yields (it only feeds prompts).
  The writes of learnt contact fields to the conversation row do not influence the answer
  and are left out.
\<close>

definition process_message_body ::
  "world \<Rightarrow> agent \<Rightarrow> string \<Rightarrow> string \<Rightarrow> conversation \<Rightarrow> (string \<times> string) list \<Rightarrow> pydict \<Rightarrow>
   (exn + pydict) \<times> agent" where
  "process_message_body W a1 sid message conv history ui =
     (case row_fault W ''initial_state'' of
        Some msg \<Rightarrow> (Inr (fallback_to_rule_based W message conv ui), a1)
      | None \<Rightarrow>
         (case (if api_disabled a1 then reload_api_key W a1 else (True, a1)) of
            (False, a2) \<Rightarrow> (Inr (fallback_to_rule_based W message conv ui), a2)
          | (True, a2) \<Rightarrow>
             (if \<not> is_client_available a2
              then (Inr (fallback_to_rule_based W message conv ui), a2)
              else case graph_invoke W
                          (a2, initial_state sid message conv
                                 (case row_fault W ''messages'' of Some msg \<Rightarrow> [] | None \<Rightarrow> history)
                                 ui (form_state_of W conv)) of
                (Inl e, a3) \<Rightarrow> (Inr (fallback_to_rule_based W message conv ui), a3)
              | (Inr final, a3) \<Rightarrow>
                 (if api_disabled a3
                  then (Inr (fallback_to_rule_based W message conv ui), a3)
                  else case clean_response W (case response final of None \<Rightarrow> [] | Some r \<Rightarrow> r) of
                    Inl e \<Rightarrow> (Inr (fallback_to_rule_based W message conv ui), a3)
                  | Inr cleaned_message \<Rightarrow>
                     (if cleaned_message = [] \<or> startswith cleaned_message ''I apologize''
                         \<or> startswith cleaned_message ''I'm having trouble''
                      then (Inr (fallback_to_rule_based W message conv ui), a3)
                      else (Inr (pipeline_response cleaned_message final), a3))))))"

text \<open>
  \<^verbatim>\<open>process_message\<close>: user info, contact extraction, the body, and the outermost
  handler, which answers with the ultimate fallback.
\<close>

definition process_message ::
  "world \<Rightarrow> agent \<Rightarrow> string \<Rightarrow> string \<Rightarrow> conversation \<Rightarrow> (string \<times> string) list \<Rightarrow>
   (exn + pydict) \<times> agent" where
  "process_message W a sid message conv history =
     (case contact_step W a message (initial_user_info W conv) of
        (ui, a1) \<Rightarrow>
          (case process_message_body W a1 sid message conv history ui of
             (Inl e, a2) \<Rightarrow> (Inr (ultimate_fallback_response ui), a2)
           | (Inr r, a2) \<Rightarrow> (Inr r, a2)))"

section \<open>The turn endpoint (\<^verbatim>\<open>views.chatbot_message\<close>)\<close>

text \<open>
  The two tables the endpoint touches. A message's id is its position in the table.
\<close>

record chat_message =
  m_session :: string
  m_type :: string
  m_content :: json
  m_response_time_ms :: json
  m_is_admin_reply :: bool

record database =
  conversations :: "conversation list"
  chat_messages :: "chat_message list"

record request =
  req_message :: string
  req_session_id :: string
  req_forwarded_for :: "string option"
  req_remote_addr :: "string option"

definition new_conversation :: "string \<Rightarrow> string option \<Rightarrow> conversation" where
  "new_conversation sid ip =
     \<lparr>c_session_id = sid, c_user_email = [], c_user_name = [], c_user_phone = [],
      c_ip_address = ip, c_is_lead = False, c_status = ''active'',
      c_manual_reply_active = False, c_collected_data = [], c_intent_classification = [],
      c_confidence_score = JNull\<rparr>"

text \<open>\<^verbatim>\<open>Conversation.objects.get_or_create(session_id=...)\<close> and \<^verbatim>\<open>conversation.save()\<close>.\<close>

definition find_conversation :: "database \<Rightarrow> string \<Rightarrow> conversation option" where
  "find_conversation db sid = find (\<lambda>c. c_session_id c = sid) (conversations db)"

definition save_conversation :: "database \<Rightarrow> conversation \<Rightarrow> database" where
  "save_conversation db c =
     (case find_conversation db (c_session_id c) of
        None \<Rightarrow> db\<lparr>conversations := conversations db @ [c]\<rparr>
      | Some old \<Rightarrow>
          db\<lparr>conversations := map (\<lambda>x. if c_session_id x = c_session_id c then c else x)
                                   (conversations db)\<rparr>)"

definition create_message :: "database \<Rightarrow> chat_message \<Rightarrow> database" where
  "create_message db m = db\<lparr>chat_messages := chat_messages db @ [m]\<rparr>"

text \<open>
  \<^verbatim>\<open>check_and_mark_completed\<close> never completes a conversation: it returns \<^verbatim>\<open>False\<close> on
  both of its paths and changes nothing.
\<close>

definition check_and_mark_completed :: "conversation \<Rightarrow> conversation" where
  "check_and_mark_completed c = c"

definition client_ip :: "request \<Rightarrow> string option" where
  "client_ip rq =
     (case nonempty (req_forwarded_for rq) of
        Some x \<Rightarrow> Some (takeWhile (\<lambda>ch. ch \<noteq> CHR '','') x)
      | None \<Rightarrow> req_remote_addr rq)"

definition history_of :: "database \<Rightarrow> string \<Rightarrow> (string \<times> string) list" where
  "history_of db sid =
     map (\<lambda>m. (m_type m, case m_content m of JStr s \<Rightarrow> s | other \<Rightarrow> []))
         (filter (\<lambda>m. m_session m = sid) (chat_messages db))"

text \<open>
  The endpoint's own fallback when \<^verbatim>\<open>process_message\<close> raises, and the update of the
  conversation row from the answer.
\<close>

definition view_fallback :: "world \<Rightarrow> string \<Rightarrow> pydict" where
  "view_fallback W user_message =
     (let fallback_result = generate_response W user_message in
      [(''message'', get_or fallback_result ''message'' (JStr help_message)),
       (''intent_classification'', get_or fallback_result ''intent'' (JStr ''general'')),
       (''confidence_score'', get_or fallback_result ''confidence'' (JNum 0.5)),
       (''collected_data'', JObj []),
       (''user_info'', JObj []),
       (''response_time_ms'', JNum 50)])"

definition as_dict :: "json \<Rightarrow> pydict" where
  "as_dict v = (case v of JObj e \<Rightarrow> e | other \<Rightarrow> [])"

definition set_if_blank :: "world \<Rightarrow> string \<Rightarrow> json \<Rightarrow> string" where
  "set_if_blank W old v = (if truthy v \<and> old = [] then py_str W v else old)"

definition update_conversation :: "world \<Rightarrow> conversation \<Rightarrow> pydict \<Rightarrow> conversation" where
  "update_conversation W conv ai_response =
     (let c1 = (if get_truthy ai_response ''intent_classification'' then
                  conv\<lparr>c_intent_classification :=
                         py_str W (get_or ai_response ''intent_classification'' JNull),
                       c_confidence_score := get_or ai_response ''confidence_score'' (JNum 0)\<rparr>
                else conv);
          extracted_data = as_dict (get_or ai_response ''collected_data'' (JObj []));
          extracted_user_info = as_dict (get_or ai_response ''user_info'' (JObj []));
          c2 = c1\<lparr>c_collected_data := dict_update (c_collected_data c1) extracted_data\<rparr>;
          c3 = c2\<lparr>c_user_name := set_if_blank W (c_user_name c2) (get_or extracted_user_info ''name'' JNull),
                  c_user_email := set_if_blank W (c_user_email c2) (get_or extracted_user_info ''email'' JNull),
                  c_user_phone := set_if_blank W (c_user_phone c2) (get_or extracted_user_info ''phone'' JNull)\<rparr>;
          c4 = c3\<lparr>c_user_name :=
                    set_if_blank W (c_user_name c3)
                      (if get_truthy extracted_data ''name'' then get_or extracted_data ''name'' JNull
                       else get_or extracted_data ''full_name'' JNull),
                  c_user_email := set_if_blank W (c_user_email c3) (get_or extracted_data ''email'' JNull),
                  c_user_phone := set_if_blank W (c_user_phone c3) (get_or extracted_data ''phone'' JNull)\<rparr>
      in if get_truthy ai_response ''is_lead'' \<or> extracted_data \<noteq> [] \<or> extracted_user_info \<noteq> []
         then c4\<lparr>c_is_lead := True\<rparr> else c4)"

definition last_assistant_id :: "database \<Rightarrow> string \<Rightarrow> json" where
  "last_assistant_id db sid =
     (case filter (\<lambda>i. m_session (chat_messages db ! i) = sid
                        \<and> m_type (chat_messages db ! i) = ''assistant'')
                  (rev [0..<length (chat_messages db)]) of
        [] \<Rightarrow> JNull
      | i # rest \<Rightarrow> JNum (real (Suc i)))"

definition chatbot_message ::
  "world \<Rightarrow> agent \<Rightarrow> database \<Rightarrow> request \<Rightarrow> (nat \<times> pydict) \<times> database \<times> agent" where
  "chatbot_message W a db rq =
     (let user_message = strip (req_message rq); sid = req_session_id rq in
      if user_message = [] \<or> sid = [] then
        ((400, [(''error'', JStr ''Message and session_id are required'')]), db, a)
      else
       (let found = find_conversation db sid;
            conv0 = (case found of None \<Rightarrow> new_conversation sid (client_ip rq) | Some c \<Rightarrow> c);
            db0 = (case found of None \<Rightarrow> save_conversation db conv0 | Some c \<Rightarrow> db);
            conv1 = (if nonempty (c_ip_address conv0) = None
                     then conv0\<lparr>c_ip_address := client_ip rq\<rparr> else conv0);
            db1 = (if nonempty (c_ip_address conv0) = None then save_conversation db0 conv1 else db0);
            conv = check_and_mark_completed conv1
        in if c_status conv = ''completed'' then
             ((200, [(''message'', JStr ''This conversation has ended. Please start a new conversation.''),
                     (''response_time_ms'', JNum 0),
                     (''session_id'', JStr sid),
                     (''manual_reply_active'', JBool False),
                     (''conversation_completed'', JBool True),
                     (''status'', JStr (c_status conv))]), db1, a)
           else
            (let db2 = save_conversation
                         (create_message db1
                            \<lparr>m_session = sid, m_type = ''user'', m_content = JStr user_message,
                             m_response_time_ms = JNull, m_is_admin_reply = False\<rparr>) conv;
                 user_message_id = JNum (real (length (chat_messages db2)))
             in if c_manual_reply_active conv then
                  ((200, [(''message'', JStr []),
                          (''response_time_ms'', JNum 0),
                          (''session_id'', JStr sid),
                          (''manual_reply_active'', JBool True),
                          (''silent_block'', JBool True),
                          (''user_message_id'', user_message_id),
                          (''status'', JStr (c_status conv))]), db2, a)
                else
                 (case process_message W a sid user_message conv (history_of db2 sid) of
                    (outcome, a1) \<Rightarrow>
                     (let ai_response = (case outcome of
                                           Inl e \<Rightarrow> view_fallback W user_message
                                         | Inr r \<Rightarrow> r);
                          conv2 = update_conversation W conv ai_response;
                          db3 = create_message (save_conversation db2 conv2)
                                  \<lparr>m_session = sid, m_type = ''assistant'',
                                   m_content = get_or ai_response ''message'' (JStr help_message),
                                   m_response_time_ms = get_or ai_response ''response_time_ms'' (JNum 1000),
                                   m_is_admin_reply = False\<rparr>
                      in ((200, [(''message'', get_or ai_response ''message'' (JStr help_message)),
                                 (''response_time_ms'', get_or ai_response ''response_time_ms'' (JNum 1000)),
                                 (''session_id'', JStr sid),
                                 (''manual_reply_active'', JBool (c_manual_reply_active conv2)),
                                 (''intent_classified'', JBool (get_truthy ai_response ''intent_classification'')),
                                 (''current_form'', get_or ai_response ''current_form'' JNull),
                                 (''current_step'', get_or ai_response ''current_step'' JNull),
                                 (''is_form_active'', get_or ai_response ''is_form_active'' (JBool False)),
                                 (''form_completed'', get_or ai_response ''form_completed'' (JBool False)),
                                 (''requires_confirmation'',
                                  get_or ai_response ''requires_confirmation'' (JBool False)),
                                 (''status'', JStr (c_status conv2)),
                                 (''message_id'', last_assistant_id db3 sid),
                                 (''user_message_id'', user_message_id)]), db3, a1))))))"

section \<open>Predicates of the specification and sample inputs\<close>

text \<open>
  The provider failed the classifier: the request raised, the answer was empty (no choices,
  no content, or only whitespace), or no JSON could be read out of it.
\<close>

definition provider_failed :: "world \<Rightarrow> completion \<Rightarrow> bool" where
  "provider_failed W r =
     (case r of
        Raises e \<Rightarrow> True
      | NoChoices \<Rightarrow> True
      | Content c \<Rightarrow>
          c = [] \<or> strip c = []
          \<or> extract_json_from_text W (clean_response_for_json W (strip c)) = None)"

text \<open>
  The classifier reaches the provider: a client is available and the short cut for an
  active form is not taken.
\<close>

definition consults_provider :: "agent \<Rightarrow> conv_state \<Rightarrow> bool" where
  "consults_provider a st =
     (is_client_available a \<and>
      (case nonempty (current_form st) of
         None \<Rightarrow> True
       | Some cf \<Rightarrow> looks_like_new_intent (current_message st)
                    \<and> missing_fields (required_of cf) (collected_data st) = []))"

text \<open>
  The confidence that a provider answer reports, when the answer is a JSON object whose
  confidence \<^verbatim>\<open>float\<close> accepts (0.5 when the object has no such key).
\<close>

definition reported_confidence :: "world \<Rightarrow> agent \<Rightarrow> real option" where
  "reported_confidence W a =
     (case completions W (requests a) of
        Content c \<Rightarrow>
          (case extract_json_from_text W (clean_response_for_json W (strip c)) of
             Some (JObj kvs) \<Rightarrow> float_py W (get_or kvs ''confidence'' (JNum 0.5))
           | other \<Rightarrow> None)
      | other \<Rightarrow> None)"

text \<open>The keys of the answer of \<^verbatim>\<open>process_message\<close> that every tier provides.\<close>

definition response_keys :: "string list" where
  "response_keys =
     [''message'', ''response_type'', ''intent_classification'', ''confidence_score'',
      ''collected_data'', ''current_form'', ''current_step'', ''is_form_active'',
      ''form_completed'', ''requires_confirmation'', ''user_info'', ''response_time_ms'']"

definition well_formed :: "pydict \<Rightarrow> bool" where
  "well_formed r =
     (list_all (dict_has r) response_keys
      \<and> (case dict_get r ''message'' of Some (JStr s) \<Rightarrow> s \<noteq> [] | other \<Rightarrow> False))"

text \<open>
  The state is a form session view: the remaining fields are the required fields of the
  active form that the collected data does not fill, in schema order.
\<close>

definition session_view :: "conv_state \<Rightarrow> bool" where
  "session_view st =
     (case nonempty (current_form st) of
        None \<Rightarrow> True
      | Some cf \<Rightarrow> required_fields st = missing_fields (required_of cf) (collected_data st))"

text \<open>
  A world in which the provider answers without choices, nothing parses and nothing
  raises; the samples below change single fields of it.
\<close>

definition quiet_world :: world where
  "quiet_world =
     \<lparr>completions = (\<lambda>n. NoChoices), json_loads = (\<lambda>s. None), fenced_block = (\<lambda>s. None),
      simple_object = (\<lambda>s. None), strip_tags = (\<lambda>s. s), float_of_string = (\<lambda>s. None),
      py_repr = (\<lambda>v. []), search_email = (\<lambda>s. None), search_phone = (\<lambda>s. None),
      strip_reasoning = (\<lambda>s. s), service_fault = None,
      rb_classify = (\<lambda>s. (''general_help'', 0.3)), rb_fault = (\<lambda>s. None), reload = KeyOk,
      row_fault = (\<lambda>s. None), node_fault = (\<lambda>s. None)\<rparr>"

definition fresh_agent :: agent where
  "fresh_agent = \<lparr>client = True, api_disabled = False, api_failure_count = 0, requests = 0\<rparr>"

definition blank_state :: conv_state where
  "blank_state =
     \<lparr>session_id = ''s1'', user_info = [], ip_address = None, messages = [],
      current_message = [], current_form = None, current_step = None, collected_data = [],
      required_fields = [], completed_fields = [], intent = None, confidence = 0,
      intent_reasoning = JNull, is_form_active = False, form_completed = False,
      requires_confirmation = False, manual_reply_active = False, response = None,
      response_type = ''general'', next_node = None\<rparr>"

definition blank_conversation :: conversation where
  "blank_conversation = new_conversation ''s1'' None"

definition jane_conversation :: conversation where
  "jane_conversation =
     blank_conversation\<lparr>c_intent_classification := ''car_purchase'',
                        c_collected_data := [(''name'', JStr ''Jane Doe'')]\<rparr>"

definition rate_limited_world :: world where
  "rate_limited_world = quiet_world\<lparr>completions := (\<lambda>n. Raises ''429 rate limit exceeded'')\<rparr>"

definition hello_state :: conv_state where
  "hello_state = blank_state\<lparr>current_message := ''hello there''\<rparr>"

section \<open>Helper lemmas\<close>

lemmas catalog_lookup =
  dict_get_def dict_has_def FORM_SCHEMAS_def required_of_def missing_fields_def get_truthy_def

lemmas base_samples =
  quiet_world_def fresh_agent_def blank_state_def blank_conversation_def new_conversation_def

lemma context_patterns_nonempty:
  "list_all (\<lambda>(k, rs). rs \<noteq> [] \<and> hd rs \<noteq> []) context_patterns"
  by (simp add: context_patterns_def)

lemma map_of_list_all: "list_all P xs \<Longrightarrow> map_of xs k = Some v \<Longrightarrow> P (k, v)"
  by (induction xs) (auto split: if_splits)

lemma canned_nonempty:
  assumes "d \<noteq> []"
  shows "(case (case dict_get context_patterns c of None \<Rightarrow> [] | Some rs \<Rightarrow> rs) of
            r # rs \<Rightarrow> r | [] \<Rightarrow> d) \<noteq> []"
proof (cases "dict_get context_patterns c")
  case None
  then show ?thesis using assms by simp
next
  case (Some rs)
  then have "rs \<noteq> [] \<and> hd rs \<noteq> []"
    using map_of_list_all[OF context_patterns_nonempty, of c rs] by (simp add: dict_get_def)
  then show ?thesis using Some by (cases rs) auto
qed

lemma get_response_for_intent_nonempty: "get_response_for_intent i m \<noteq> []"
proof -
  define c where "c = (if i = [] then ''general_help'' else i)"
  define d where "d = (if c = ''unclear'' \<and> word_count False m \<le> 2 then
            ''I'm here to help! Could you tell me more about what you need? For example, are you looking to book a vehicle, get pricing information, or have questions about our services?''
          else if c = ''unclear'' \<and> unclear_responses \<noteq> [] then hd unclear_responses
          else if default_responses \<noteq> [] then hd default_responses
          else help_message)"
  have d: "d \<noteq> []"
    by (simp add: d_def default_responses_def unclear_responses_def help_message_def)
  have "get_response_for_intent i m =
     (case (case dict_get context_patterns c of None \<Rightarrow> [] | Some rs \<Rightarrow> rs) of r # rs \<Rightarrow> r | [] \<Rightarrow> d)"
    unfolding get_response_for_intent_def Let_def c_def d_def ..
  then show ?thesis using canned_nonempty[OF d] by simp
qed

lemma generate_response_message:
  "\<exists>s. dict_get (generate_response W m) ''message'' = Some (JStr s) \<and> s \<noteq> []"
  by (cases "rb_classify W (strip m)")
     (simp add: generate_response_def dict_get_def get_response_for_intent_nonempty)

lemma classify_failed:
  assumes "provider_failed W (completions W (requests a))"
  shows "intent (snd (classify_with_provider W a st)) = Some ''general''
         \<and> confidence (snd (classify_with_provider W a st)) = 0.3
         \<and> next_node (snd (classify_with_provider W a st)) = Some ''general''"
  using assms
  by (cases "completions W (requests a)")
     (auto simp: provider_failed_def classify_with_provider_def complete_def answer_general_def)

section \<open>The classifier when the provider fails\<close>

text \<open>
  Claim C7. Whenever the classifier reaches the provider and the provider fails (the
  request raises, the answer is empty, or no JSON can be read out of it), the classifier
  returns the label \<^verbatim>\<open>general\<close> with confidence at most 0.3 and routes to the general
  answer; the node is a total function, so nothing is raised to its caller.
\<close>

theorem classifier_provider_failure:
  assumes "consults_provider a st" and "provider_failed W (completions W (requests a))"
  shows "intent (snd (intent_classifier_node W (a, st))) = Some ''general''
         \<and> confidence (snd (intent_classifier_node W (a, st))) \<le> 0.3
         \<and> next_node (snd (intent_classifier_node W (a, st))) = Some ''general''"
proof -
  have "intent_classifier_node W (a, st) = classify_with_provider W a st"
    using assms(1)
    by (auto simp: intent_classifier_node_def consults_provider_def split: option.splits)
  then show ?thesis using classify_failed[OF assms(2), of st] by simp
qed

theorem classifier_provider_failure_witness:
  "consults_provider fresh_agent hello_state
   \<and> provider_failed rate_limited_world (completions rate_limited_world (requests fresh_agent))
   \<and> intent (snd (intent_classifier_node rate_limited_world (fresh_agent, hello_state))) = Some ''general''
   \<and> confidence (snd (intent_classifier_node rate_limited_world (fresh_agent, hello_state))) \<le> 0.3
   \<and> next_node (snd (intent_classifier_node rate_limited_world (fresh_agent, hello_state)))
       = Some ''general''"
proof -
  have h1: "consults_provider fresh_agent hello_state"
    by (simp add: consults_provider_def is_client_available_def nonempty_def base_samples
                  hello_state_def)
  have h2: "provider_failed rate_limited_world (completions rate_limited_world (requests fresh_agent))"
    by (simp add: provider_failed_def base_samples rate_limited_world_def)
  show ?thesis using classifier_provider_failure[OF h1 h2] h1 h2 by simp
qed

section \<open>The payload of the rule-based tier\<close>

text \<open>
  Claim C10. Whatever the conversation holds, the payload of the rule-based fallback
  (and of the ultimate fallback it degrades to) reports no current form, no current step,
  no active form, no completed form and no pending confirmation.
\<close>

theorem fallback_reports_no_form:
  "dict_get (fallback_to_rule_based W message conv ui) ''current_form'' = Some JNull
   \<and> dict_get (fallback_to_rule_based W message conv ui) ''current_step'' = Some JNull
   \<and> dict_get (fallback_to_rule_based W message conv ui) ''is_form_active'' = Some (JBool False)
   \<and> dict_get (fallback_to_rule_based W message conv ui) ''form_completed'' = Some (JBool False)
   \<and> dict_get (fallback_to_rule_based W message conv ui) ''requires_confirmation'' = Some (JBool False)"
  by (simp add: fallback_to_rule_based_def ultimate_fallback_response_def dict_get_def Let_def
           split: option.splits)

theorem fallback_reports_no_form_witness:
  "form_state_of quiet_world jane_conversation
     = (Some ''car_purchase'', [(''name'', JStr ''Jane Doe'')], [''email'', ''phone''])
   \<and> dict_get (fallback_to_rule_based quiet_world ''hello'' jane_conversation []) ''current_form'' = Some JNull
   \<and> dict_get (fallback_to_rule_based quiet_world ''hello'' jane_conversation []) ''current_step'' = Some JNull
   \<and> dict_get (fallback_to_rule_based quiet_world ''hello'' jane_conversation []) ''is_form_active''
       = Some (JBool False)
   \<and> dict_get (fallback_to_rule_based quiet_world ''hello'' jane_conversation []) ''form_completed''
       = Some (JBool False)
   \<and> dict_get (fallback_to_rule_based quiet_world ''hello'' jane_conversation []) ''requires_confirmation''
       = Some (JBool False)"
proof -
  have "form_state_of quiet_world jane_conversation
     = (Some ''car_purchase'', [(''name'', JStr ''Jane Doe'')], [''email'', ''phone''])"
    by (simp add: form_state_of_def base_samples jane_conversation_def catalog_lookup)
  then show ?thesis
    using fallback_reports_no_form[of quiet_world "''hello''" jane_conversation "[]"] by simp
qed

end
